theory Spec2Isabelle
  imports Main "HOL-Library.List_Lexorder" "HOL-Library.Char_ord"
begin

section \<open>Strings\<close>

text \<open>
  A string of the program is the list of its code units. The literals of the source are
  ASCII, and nothing proved below depends on the width of a unit. The string operations
  the orchestrator calls on values of its own are written out here; the ones whose result
  depends on the platform (upper-casing, path joining, date formatting, serialisation) are
  parameters of the model, collected in the record \<open>runtime\<close> below.
\<close>

definition substring :: "string \<Rightarrow> nat \<Rightarrow> nat \<Rightarrow> string" where
  \<comment> \<open>\<open>s.substring(a, b)\<close>: the units from the smaller index up to the larger one\<close>
  "substring s a b = take (max a b - min a b) (drop (min a b) s)"

definition charAt :: "string \<Rightarrow> nat \<Rightarrow> string" where
  \<comment> \<open>\<open>s.charAt(i)\<close>: the unit at \<open>i\<close>, or the empty string out of range\<close>
  "charAt s i = take 1 (drop i s)"

definition slice_from :: "string \<Rightarrow> nat \<Rightarrow> string" where
  \<comment> \<open>\<open>s.slice(i)\<close> for a non-negative \<open>i\<close>\<close>
  "slice_from s i = drop i s"

fun replace_first :: "string \<Rightarrow> string \<Rightarrow> string \<Rightarrow> string" where
  \<comment> \<open>\<open>s.replace(pat, rep)\<close> with a string pattern: the first occurrence only\<close>
  "replace_first pat rep [] = (if pat = [] then rep else [])"
| "replace_first pat rep (c # cs) =
     (if take (length pat) (c # cs) = pat then rep @ drop (length pat) (c # cs)
      else c # replace_first pat rep cs)"

definition replace_colons :: "string \<Rightarrow> string" where
  \<comment> \<open>\<open>s.replace(/:/g, "-")\<close>\<close>
  "replace_colons s = map (\<lambda>c. if c = CHR '':'' then CHR ''-'' else c) s"

section \<open>Data model\<close>

record AgentConfig =
  description :: string
  tools :: "string list"
  model :: "string option"

record PhaseOutput =
  phase :: string
  timestamp :: string
  result :: string
  error :: "string option"

type_synonym WorkflowResults = "(string \<times> string) list"

text \<open>
  An object used as a dictionary (\<open>results\<close> and \<open>previousResults\<close> of
  \<open>orchestrate\<close>) is the list of its entries in the order \<open>Object.entries\<close> and
  \<open>JSON.stringify\<close> enumerate them. An assignment to a key the object has keeps the key's
  place; a new key goes last (the keys the orchestrator assigns are not array indices, which
  would be enumerated first).
\<close>

fun set_property :: "(string \<times> string) list \<Rightarrow> string \<Rightarrow> string \<Rightarrow> (string \<times> string) list" where
  "set_property [] k v = [(k, v)]"
| "set_property ((k', v') # kvs) k v =
     (if k' = k then (k, v) # kvs else (k', v') # set_property kvs k v)"

text \<open>
  What the platform provides: \<open>path.join\<close>, \<open>String.prototype.toUpperCase\<close>,
  \<open>Date.prototype.toISOString\<close> (of a time in milliseconds since the epoch) and
  \<open>JSON.stringify(x, null, 2)\<close> at the two types it is called at.
\<close>

record runtime =
  path_join :: "string \<Rightarrow> string \<Rightarrow> string"
  toUpperCase :: "string \<Rightarrow> string"
  toISOString :: "nat \<Rightarrow> string"
  stringify_phase :: "PhaseOutput \<Rightarrow> string"
  stringify_results :: "WorkflowResults \<Rightarrow> string"

text \<open>
  The orchestrator object and the world around it, as one state: the fields of the class;
  the file store (a path holds a regular file's text or nothing; reading a file that exists
  succeeds); the clock, as the sequence of the times that the successive
  \<open>new Date()\<close> calls read, with the number of calls made so far; what \<open>console.warn\<close>
  printed (\<open>console.log\<close> output is left out). Two history variables record what the
  code computes and the store does not show: \<open>prompts\<close>, the payload \<open>fullPrompt\<close> that
  each \<open>runPhase\<close> call assembled, in call order (the source prints its first 200 units
  only), and \<open>saved\<close>, the locator and the record of each \<open>savePhaseOutput\<close> call, in
  call order. No operation reads them.

  The constructor, which creates the output directory when it is missing, and the
  command-line entry point are not part of the model. What the constructor leaves is: a file
  whose name is a plain one can be written in the output directory. For every other path
  the world says whether \<open>fs.writeFileSync\<close> accepts it (the directory it names exists, the
  name is legal): that is \<open>writable\<close>.
\<close>

record state =
  instructionsDir :: string
  outputDir :: string
  phaseResults :: "string \<rightharpoonup> string"
  files :: "string \<rightharpoonup> string"
  clock :: "nat \<Rightarrow> nat"
  reads :: nat
  warnings :: "string list"
  prompts :: "(string \<times> string) list"
  saved :: "(string \<times> PhaseOutput) list"
  writable :: "string \<Rightarrow> bool"

definition new_Date :: "state \<Rightarrow> nat \<times> state" where
  "new_Date s = (clock s (reads s), s\<lparr>reads := Suc (reads s)\<rparr>)"

section \<open>Instruction loader\<close>

definition loadInstructionFile :: "runtime \<Rightarrow> state \<Rightarrow> string \<Rightarrow> string \<times> state" where
  "loadInstructionFile R s filename =
     (let filepath = path_join R (instructionsDir s) filename in
      case files s filepath of
        None \<Rightarrow>
          (''Execute the '' @ replace_first ''-phase.instructions.md'' '''' filename
             @ '' phase of the workflow.'',
           s\<lparr>warnings := warnings s
                @ [''Instruction file not found: '' @ filepath @ '', using default instructions'']\<rparr>)
      | Some text \<Rightarrow> (text, s))"

section \<open>Phase registry\<close>

definition configs :: "(string \<times> AgentConfig) list" where
  "configs =
    [(''research'',
      \<lparr>description = ''Research specialist for thorough analysis and requirement gathering'',
       tools = [''Read'', ''Grep'', ''Glob'', ''WebSearch'', ''WebFetch'', ''Task''],
       model = Some ''opus''\<rparr>),
     (''plan'',
      \<lparr>description = ''Planning expert for creating detailed implementation plans'',
       tools = [''Read'', ''Write'', ''Grep'', ''Glob'', ''Task''],
       model = Some ''opus''\<rparr>),
     (''implement'',
      \<lparr>description = ''Expert developer for implementing code following specifications'',
       tools = [''Read'', ''Write'', ''Edit'', ''Bash'', ''Grep'', ''Glob'', ''TodoWrite''],
       model = Some ''sonnet''\<rparr>),
     (''correct'',
      \<lparr>description = ''Quality assurance expert for reviewing and correcting implementations'',
       tools = [''Read'', ''Edit'', ''Bash'', ''Grep'', ''Glob'', ''TodoWrite''],
       model = Some ''opus''\<rparr>)]"

text \<open>
  \<open>configs\<close> is an object literal, so \<open>configs[phase]\<close> looks \<open>phase\<close> up among the
  object's own keys and then along its prototype chain: for a name that \<open>Object.prototype\<close>
  defines, the lookup yields that member (a function, or the prototype itself for
  \<open>__proto__\<close>). Each is truthy, so \<open>||\<close> returns it and the default on the right is
  not built.
\<close>

definition object_prototype_keys :: "string list" where
  "object_prototype_keys =
     [''constructor'', ''__defineGetter__'', ''__defineSetter__'', ''hasOwnProperty'',
      ''__lookupGetter__'', ''__lookupSetter__'', ''isPrototypeOf'', ''propertyIsEnumerable'',
      ''toString'', ''valueOf'', ''__proto__'', ''toLocaleString'']"

datatype resolved =
    Config AgentConfig
  | Inherited string  \<comment> \<open>the member of \<open>Object.prototype\<close> under that name: not a config\<close>

definition getAgentConfig :: "runtime \<Rightarrow> string \<Rightarrow> resolved" where
  "getAgentConfig R phase' =
     (case map_of configs phase' of
        Some c \<Rightarrow> Config c
      | None \<Rightarrow>
          if phase' \<in> set object_prototype_keys then Inherited phase'
          else Config
            \<lparr>description =
               toUpperCase R (charAt phase' 0) @ slice_from phase' 1 @ '' phase specialist'',
             tools = [''Read'', ''Write'', ''Grep'', ''Glob''],
             model = Some ''sonnet''\<rparr>)"

section \<open>Output store\<close>

datatype failure =
    TypeError string  \<comment> \<open>a property read on \<open>undefined\<close>\<close>
  | WriteFailed string  \<comment> \<open>what \<open>fs.writeFileSync\<close> throws for the path, \<open>ENOENT\<close> for a missing directory\<close>
  | Thrown string  \<comment> \<open>any other \<open>Error\<close>, by its message\<close>

text \<open>
  The file name of a record is the phase name, an underscore, the timestamp and
  \<open>.json\<close>; the timestamp has no path separator. So the name is a single name in the
  output directory when the phase name has no separator, and then the write succeeds, on a
  POSIX file system, if the name is also free of NUL and short enough for a file name (255
  bytes; 64 code units fit in any encoding, with the 33 units that follow). A phase name
  with a separator sends the file to another directory, a long one may exceed the limit:
  there the world decides.
\<close>

definition plain :: "string \<Rightarrow> bool" where
  "plain name \<longleftrightarrow> length name \<le> 64 \<and> CHR ''/'' \<notin> set name \<and> CHR 0x00 \<notin> set name"

definition savePhaseOutput ::
  "runtime \<Rightarrow> state \<Rightarrow> PhaseOutput \<Rightarrow> (failure + string) \<times> state" where
  "savePhaseOutput R s phaseOutput =
     (let (now, s1) = new_Date s;
          timestamp = replace_colons (toISOString R now);
          filename = phase phaseOutput @ ''_'' @ timestamp @ ''.json'';
          filepath = path_join R (outputDir s1) filename
      in if plain (phase phaseOutput) \<or> writable s1 filepath
         then (Inr filepath,
               s1\<lparr>files := (files s1)(filepath \<mapsto> stringify_phase R phaseOutput),
                  saved := saved s1 @ [(filepath, phaseOutput)]\<rparr>)
         else (Inl (WriteFailed filepath), s1))"

section \<open>Phase executor\<close>

definition preview :: "string \<Rightarrow> string" where
  "preview result' =
     (if length result' > 1000 then substring result' 0 1000 @ ''...'' else result')"

definition contextBlock :: "runtime \<Rightarrow> string \<Rightarrow> string \<Rightarrow> string" where
  \<comment> \<open>what one turn of the loop appends to \<open>fullPrompt\<close>\<close>
  "contextBlock R prevPhase result' =
     ''\<newline>### '' @ toUpperCase R prevPhase @ '' Phase:\<newline>'' @ preview result' @ ''\<newline>''"

fun appendPrevious :: "runtime \<Rightarrow> string \<Rightarrow> (string \<times> string) list \<Rightarrow> string" where
  \<comment> \<open>the \<open>for\<close> loop over \<open>Object.entries(previousResults)\<close>, appending to \<open>fullPrompt\<close>\<close>
  "appendPrevious R fullPrompt' [] = fullPrompt'"
| "appendPrevious R fullPrompt' ((prevPhase, result') # entries) =
     appendPrevious R (fullPrompt' @ contextBlock R prevPhase result') entries"

definition fullPrompt ::
  "runtime \<Rightarrow> string \<Rightarrow> (string \<times> string) list option \<Rightarrow> string \<Rightarrow> string" where
  "fullPrompt R taskDescription previousResults phaseInstructions =
     (let p = taskDescription;
          p = (case previousResults of
                 None \<Rightarrow> p
               | Some entries \<Rightarrow>
                   if length entries > 0
                   then appendPrevious R (p @ ''\<newline>\<newline>## Context from Previous Phases:\<newline>'') entries
                   else p)
      in p @ ''\<newline>\<newline>## Phase Instructions:\<newline>'' @ phaseInstructions)"

definition placeholder :: "runtime \<Rightarrow> string \<Rightarrow> string" where
  \<comment> \<open>the text assigned to \<open>phaseOutput.result\<close>\<close>
  "placeholder R phaseName =
     ''['' @ toUpperCase R phaseName @ '' PHASE COMPLETE]\<newline>\<newline>''
     @ ''This is where the agent's response would be captured.\<newline>\<newline>''
     @ ''In a real implementation, this would use the Claude Agent SDK to:\<newline>''
     @ ''1. Spawn a sub-agent with the specified model and tools\<newline>''
     @ ''2. Pass the full prompt with instructions\<newline>''
     @ ''3. Capture the agent's response\<newline>''
     @ ''4. Return the results''"

text \<open>
  \<open>runPhase\<close> is an \<open>async\<close> method: an exception thrown in its body rejects the promise
  it returns. Two expressions of the body can throw in this model. The first is
  \<open>agentConfig.tools.join(", ")\<close>, when \<open>agentConfig\<close> is an inherited member and has
  no \<open>tools\<close>: the instruction was loaded and the clock read before that, the record is
  neither completed nor saved. The second is the write in \<open>savePhaseOutput\<close>: the record
  is complete, nothing is stored, and \<open>this.phaseResults\<close> is not updated.
\<close>

definition runPhase ::
  "runtime \<Rightarrow> state \<Rightarrow> string \<Rightarrow> string \<Rightarrow> (string \<times> string) list option
     \<Rightarrow> (failure + string) \<times> state" where
  "runPhase R s phaseName taskDescription previousResults =
     (let (phaseInstructions, s1) =
            loadInstructionFile R s (phaseName @ ''-phase.instructions.md'');
          agentConfig = getAgentConfig R phaseName;
          payload = fullPrompt R taskDescription previousResults phaseInstructions;
          s2 = s1\<lparr>prompts := prompts s1 @ [(phaseName, payload)]\<rparr>;
          (now, s3) = new_Date s2;
          phaseOutput =
            \<lparr>phase = phaseName, timestamp = toISOString R now, result = '''', error = None\<rparr>
      in case agentConfig of
           Inherited member \<Rightarrow>
             (Inl (TypeError ''Cannot read properties of undefined (reading 'join')''), s3)
         | Config c \<Rightarrow>
             (let phaseOutput = phaseOutput\<lparr>result := placeholder R phaseName\<rparr> in
              case savePhaseOutput R s3 phaseOutput of
                (Inl e, s4) \<Rightarrow> (Inl e, s4)
              | (Inr outputFile, s4) \<Rightarrow>
                  (Inr (result phaseOutput),
                   s4\<lparr>phaseResults := (phaseResults s4)(phaseName \<mapsto> result phaseOutput)\<rparr>)))"

section \<open>Orchestration controller\<close>

definition researchTask :: "string \<Rightarrow> string" where
  "researchTask task =
     ''Task: '' @ task @ ''\<newline>\<newline>Conduct thorough research for this task. ''
     @ ''Verify assumptions, explore multiple approaches, and document findings.''"

definition planTask :: "string \<Rightarrow> string" where
  "planTask task =
     ''Task: '' @ task
     @ ''\<newline>\<newline>Based on the research above, create a detailed implementation plan.''"

definition implementTask :: "string \<Rightarrow> string" where
  "implementTask task =
     ''Task: '' @ task @ ''\<newline>\<newline>Implement the solution following the plan above.''"

definition correctTask :: "string \<Rightarrow> string" where
  "correctTask task =
     ''Task: '' @ task
     @ ''\<newline>\<newline>Review the implementation and create a corrective plan if issues are found.''"

text \<open>
  \<open>orchestrate\<close> awaits the four \<open>runPhase\<close> calls one after the other with no
  \<open>try\<close> around them: a rejected call ends \<open>orchestrate\<close> with that failure, before the
  later phases and the summary.
\<close>

definition orchestrate ::
  "runtime \<Rightarrow> state \<Rightarrow> string \<Rightarrow> (failure + WorkflowResults) \<times> state" where
  "orchestrate R s task =
     (let results = []; previousResults = [] in
      case runPhase R s ''research'' (researchTask task) None of
        (Inl e, s1) \<Rightarrow> (Inl e, s1)
      | (Inr researchResult, s1) \<Rightarrow>
     (let results = set_property results ''research'' researchResult;
          previousResults = set_property previousResults ''research'' researchResult in
      case runPhase R s1 ''plan'' (planTask task) (Some previousResults) of
        (Inl e, s2) \<Rightarrow> (Inl e, s2)
      | (Inr planningResult, s2) \<Rightarrow>
     (let results = set_property results ''plan'' planningResult;
          previousResults = set_property previousResults ''plan'' planningResult in
      case runPhase R s2 ''implement'' (implementTask task) (Some previousResults) of
        (Inl e, s3) \<Rightarrow> (Inl e, s3)
      | (Inr implementationResult, s3) \<Rightarrow>
     (let results = set_property results ''implement'' implementationResult;
          previousResults = set_property previousResults ''implement'' implementationResult in
      case runPhase R s3 ''correct'' (correctTask task) (Some previousResults) of
        (Inl e, s4) \<Rightarrow> (Inl e, s4)
      | (Inr correctionResult, s4) \<Rightarrow>
     (let results = set_property results ''correct'' correctionResult;
          (now, s5) = new_Date s4;
          timestamp = replace_colons (toISOString R now);
          summaryFile = path_join R (outputDir s5) (''workflow_summary_'' @ timestamp @ ''.json'')
      in (Inr results,
          s5\<lparr>files := (files s5)(summaryFile \<mapsto> stringify_results R results)\<rparr>))))))"

text \<open>
  \<open>orchestrate\<close> calls the executor as \<open>this.runPhase\<close>: the method is looked up on
  the object when the call is made, so on an object of a subclass, or on one whose method a
  test has replaced, the four calls go to that method. \<open>orchestrate_with run\<close> is the
  body of \<open>orchestrate\<close> on an object whose \<open>runPhase\<close> is \<open>run\<close>; \<open>orchestrate\<close>
  itself is the case of the class's own method (\<open>orchestrate_own\<close> below).
\<close>

type_synonym executor =
  "state \<Rightarrow> string \<Rightarrow> string \<Rightarrow> (string \<times> string) list option \<Rightarrow> (failure + string) \<times> state"

definition orchestrate_with ::
  "executor \<Rightarrow> runtime \<Rightarrow> state \<Rightarrow> string \<Rightarrow> (failure + WorkflowResults) \<times> state" where
  "orchestrate_with run R s task =
     (let results = []; previousResults = [] in
      case run s ''research'' (researchTask task) None of
        (Inl e, s1) \<Rightarrow> (Inl e, s1)
      | (Inr researchResult, s1) \<Rightarrow>
     (let results = set_property results ''research'' researchResult;
          previousResults = set_property previousResults ''research'' researchResult in
      case run s1 ''plan'' (planTask task) (Some previousResults) of
        (Inl e, s2) \<Rightarrow> (Inl e, s2)
      | (Inr planningResult, s2) \<Rightarrow>
     (let results = set_property results ''plan'' planningResult;
          previousResults = set_property previousResults ''plan'' planningResult in
      case run s2 ''implement'' (implementTask task) (Some previousResults) of
        (Inl e, s3) \<Rightarrow> (Inl e, s3)
      | (Inr implementationResult, s3) \<Rightarrow>
     (let results = set_property results ''implement'' implementationResult;
          previousResults = set_property previousResults ''implement'' implementationResult in
      case run s3 ''correct'' (correctTask task) (Some previousResults) of
        (Inl e, s4) \<Rightarrow> (Inl e, s4)
      | (Inr correctionResult, s4) \<Rightarrow>
     (let results = set_property results ''correct'' correctionResult;
          (now, s5) = new_Date s4;
          timestamp = replace_colons (toISOString R now);
          summaryFile = path_join R (outputDir s5) (''workflow_summary_'' @ timestamp @ ''.json'')
      in (Inr results,
          s5\<lparr>files := (files s5)(summaryFile \<mapsto> stringify_results R results)\<rparr>))))))"

section \<open>The states of a run\<close>

text \<open>
  Names for what the theorems speak about: the instruction text a phase loads in a state,
  the state a \<open>runPhase\<close> call leaves, and the states in which the second, third and
  fourth phase of \<open>orchestrate\<close> start and the fourth one ends.
\<close>

definition phaseInstructions :: "runtime \<Rightarrow> state \<Rightarrow> string \<Rightarrow> string" where
  "phaseInstructions R s phaseName =
     fst (loadInstructionFile R s (phaseName @ ''-phase.instructions.md''))"

definition instructionWarnings :: "runtime \<Rightarrow> state \<Rightarrow> string \<Rightarrow> string list" where
  \<comment> \<open>the warnings printed once the phase's instruction is loaded\<close>
  "instructionWarnings R s phaseName =
     warnings (snd (loadInstructionFile R s (phaseName @ ''-phase.instructions.md'')))"

definition phaseRecord :: "runtime \<Rightarrow> state \<Rightarrow> string \<Rightarrow> PhaseOutput" where
  \<comment> \<open>\<open>phaseOutput\<close> as \<open>runPhase\<close> passes it to \<open>savePhaseOutput\<close>\<close>
  "phaseRecord R s phaseName =
     \<lparr>phase = phaseName, timestamp = toISOString R (clock s (reads s)),
      result = placeholder R phaseName, error = None\<rparr>"

definition phaseState ::
  "runtime \<Rightarrow> state \<Rightarrow> string \<Rightarrow> string \<Rightarrow> (string \<times> string) list option \<Rightarrow> state" where
  "phaseState R s phaseName taskDescription previousResults =
     snd (runPhase R s phaseName taskDescription previousResults)"

definition afterResearch :: "runtime \<Rightarrow> state \<Rightarrow> string \<Rightarrow> state" where
  "afterResearch R s task = phaseState R s ''research'' (researchTask task) None"

definition afterPlan :: "runtime \<Rightarrow> state \<Rightarrow> string \<Rightarrow> state" where
  "afterPlan R s task =
     phaseState R (afterResearch R s task) ''plan'' (planTask task)
       (Some [(''research'', placeholder R ''research'')])"

definition afterImplement :: "runtime \<Rightarrow> state \<Rightarrow> string \<Rightarrow> state" where
  "afterImplement R s task =
     phaseState R (afterPlan R s task) ''implement'' (implementTask task)
       (Some [(''research'', placeholder R ''research''), (''plan'', placeholder R ''plan'')])"

definition afterCorrect :: "runtime \<Rightarrow> state \<Rightarrow> string \<Rightarrow> state" where
  "afterCorrect R s task =
     phaseState R (afterImplement R s task) ''correct'' (correctTask task)
       (Some [(''research'', placeholder R ''research''), (''plan'', placeholder R ''plan''),
              (''implement'', placeholder R ''implement'')])"

definition phaseFileName :: "runtime \<Rightarrow> string \<Rightarrow> nat \<Rightarrow> string" where
  \<comment> \<open>\<open>filename\<close> of \<open>savePhaseOutput\<close> for a phase at a clock reading\<close>
  "phaseFileName R phaseName now =
     phaseName @ ''_'' @ replace_colons (toISOString R now) @ ''.json''"

definition phaseFile :: "runtime \<Rightarrow> state \<Rightarrow> string \<Rightarrow> nat \<Rightarrow> string" where
  \<comment> \<open>the locator \<open>savePhaseOutput\<close> builds for a phase at a clock reading\<close>
  "phaseFile R s phaseName now = path_join R (outputDir s) (phaseFileName R phaseName now)"

definition saves :: "runtime \<Rightarrow> state \<Rightarrow> string \<Rightarrow> bool" where
  \<comment> \<open>the write of the record that \<open>runPhase\<close> builds in the state \<open>s\<close> succeeds\<close>
  "saves R s phaseName \<longleftrightarrow>
     plain phaseName \<or> writable s (phaseFile R s phaseName (clock s (Suc (reads s))))"

definition stamped :: "runtime \<Rightarrow> state \<Rightarrow> string \<Rightarrow> nat \<Rightarrow> PhaseOutput" where
  \<comment> \<open>the record of a phase that reads the clock \<open>k\<close> readings after the state \<open>s\<close>\<close>
  "stamped R s phaseName k =
     \<lparr>phase = phaseName, timestamp = toISOString R (clock s (reads s + k)),
      result = placeholder R phaseName, error = None\<rparr>"

definition summaryFile :: "runtime \<Rightarrow> state \<Rightarrow> nat \<Rightarrow> string" where
  \<comment> \<open>the locator of the run's summary at a clock reading\<close>
  "summaryFile R s now =
     path_join R (outputDir s)
       (''workflow_summary_'' @ replace_colons (toISOString R now) @ ''.json'')"

definition summary :: "runtime \<Rightarrow> WorkflowResults" where
  \<comment> \<open>\<open>results\<close> at the end of \<open>orchestrate\<close>\<close>
  "summary R =
     [(''research'', placeholder R ''research''), (''plan'', placeholder R ''plan''),
      (''implement'', placeholder R ''implement''), (''correct'', placeholder R ''correct'')]"

section \<open>A concrete platform and concrete worlds\<close>

text \<open>
  For running the model on concrete inputs: the POSIX \<open>path.join\<close>, which joins its
  non-empty arguments with a separator and normalises the result; \<open>toUpperCase\<close> on
  ASCII text; \<open>toISOString\<close> for a time from 1970 on; and
  \<open>JSON.stringify(x, null, 2)\<close> of a record of strings.
\<close>

fun split_slash :: "string \<Rightarrow> string list" where
  \<comment> \<open>the segments between the separators\<close>
  "split_slash [] = [[]]"
| "split_slash (c # cs) =
     (if c = CHR ''/'' then [] # split_slash cs
      else (case split_slash cs of [] \<Rightarrow> [[c]] | seg # segs \<Rightarrow> (c # seg) # segs))"

fun resolve_dots :: "bool \<Rightarrow> string list \<Rightarrow> string list \<Rightarrow> string list" where
  \<comment> \<open>\<open>resolve_dots aboveRoot kept segs\<close>: \<open>kept\<close> holds the segments kept so far, last first\<close>
  "resolve_dots aboveRoot kept [] = rev kept"
| "resolve_dots aboveRoot kept (seg # segs) =
     (if seg = [] \<or> seg = ''.'' then resolve_dots aboveRoot kept segs
      else if seg = ''..'' then
        (case kept of
           [] \<Rightarrow> resolve_dots aboveRoot (if aboveRoot then [''..''] else []) segs
         | seg' # rest \<Rightarrow>
             if seg' = ''..'' then resolve_dots aboveRoot (''..'' # kept) segs
             else resolve_dots aboveRoot rest segs)
      else resolve_dots aboveRoot (seg # kept) segs)"

fun join_slash :: "string list \<Rightarrow> string" where
  "join_slash [] = []"
| "join_slash [seg] = seg"
| "join_slash (seg # segs) = seg @ ''/'' @ join_slash segs"

definition posix_normalize :: "string \<Rightarrow> string" where
  "posix_normalize path =
     (if path = [] then ''.''
      else if hd path = CHR ''/'' then
        ''/'' @ join_slash (resolve_dots False [] (split_slash path))
        @ (if last path = CHR ''/'' \<and> resolve_dots False [] (split_slash path) \<noteq> [] then ''/''
           else [])
      else if resolve_dots True [] (split_slash path) = [] then
        (if last path = CHR ''/'' then ''./'' else ''.'')
      else join_slash (resolve_dots True [] (split_slash path))
           @ (if last path = CHR ''/'' then ''/'' else []))"

definition posix_join :: "string \<Rightarrow> string \<Rightarrow> string" where
  "posix_join a b =
     (if a = [] \<and> b = [] then ''.''
      else if a = [] then posix_normalize b
      else if b = [] then posix_normalize a
      else posix_normalize (a @ ''/'' @ b))"

definition posix_dirname :: "string \<Rightarrow> string" where
  \<comment> \<open>the directory of a normalised path that names a file\<close>
  "posix_dirname path =
     (if length (split_slash path) \<le> 1 then ''.''
      else if join_slash (butlast (split_slash path)) = [] then ''/''
      else join_slash (butlast (split_slash path)))"

definition ascii_upper :: "char \<Rightarrow> char" where
  "ascii_upper c =
     (case map_of (zip ''abcdefghijklmnopqrstuvwxyz'' ''ABCDEFGHIJKLMNOPQRSTUVWXYZ'') c of
        None \<Rightarrow> c
      | Some C \<Rightarrow> C)"

definition digit :: "nat \<Rightarrow> char" where
  "digit n = ''0123456789'' ! (n mod 10)"

definition digits2 :: "nat \<Rightarrow> string" where
  "digits2 n = [digit (n div 10), digit n]"

definition digits3 :: "nat \<Rightarrow> string" where
  "digits3 n = [digit (n div 100), digit (n div 10), digit n]"

definition digits4 :: "nat \<Rightarrow> string" where
  "digits4 n = digits2 (n div 100) @ digits2 n"

definition digits6 :: "nat \<Rightarrow> string" where
  "digits6 n = digits3 (n div 1000) @ digits3 n"

text \<open>
  The calendar date of a day number (days since 1970-01-01), by eras of 400 years that
  start on a first of March: the day of the era, the year of the era, the day of that
  year, and the month counted from March.
\<close>

definition day_of_era :: "nat \<Rightarrow> nat" where
  "day_of_era days = (days + 719468) mod 146097"

definition year_of_era :: "nat \<Rightarrow> nat" where
  "year_of_era doe = (doe - doe div 1460 + doe div 36524 - doe div 146096) div 365"

definition day_of_year :: "nat \<Rightarrow> nat" where
  "day_of_year doe =
     doe - (365 * year_of_era doe + year_of_era doe div 4 - year_of_era doe div 100)"

definition month_from_march :: "nat \<Rightarrow> nat" where
  "month_from_march doy = (5 * doy + 2) div 153"

definition civil_day :: "nat \<Rightarrow> nat" where
  "civil_day days =
     day_of_year (day_of_era days)
       - (153 * month_from_march (day_of_year (day_of_era days)) + 2) div 5 + 1"

definition civil_month :: "nat \<Rightarrow> nat" where
  "civil_month days =
     (if month_from_march (day_of_year (day_of_era days)) < 10
      then month_from_march (day_of_year (day_of_era days)) + 3
      else month_from_march (day_of_year (day_of_era days)) - 9)"

definition civil_year :: "nat \<Rightarrow> nat" where
  "civil_year days =
     year_of_era (day_of_era days) + (days + 719468) div 146097 * 400
       + (if civil_month days \<le> 2 then 1 else 0)"

definition iso8601 :: "nat \<Rightarrow> string" where
  "iso8601 ms =
     (if civil_year (ms div 86400000) \<le> 9999 then digits4 (civil_year (ms div 86400000))
      else ''+'' @ digits6 (civil_year (ms div 86400000)))
     @ ''-'' @ digits2 (civil_month (ms div 86400000))
     @ ''-'' @ digits2 (civil_day (ms div 86400000))
     @ ''T'' @ digits2 (ms mod 86400000 div 3600000)
     @ '':'' @ digits2 (ms mod 86400000 div 60000 mod 60)
     @ '':'' @ digits2 (ms mod 86400000 div 1000 mod 60)
     @ ''.'' @ digits3 (ms mod 1000) @ ''Z''"

definition hex_digit :: "nat \<Rightarrow> char" where
  "hex_digit n = ''0123456789abcdef'' ! (n mod 16)"

definition json_char :: "char \<Rightarrow> string" where
  "json_char c =
     (if c = CHR 0x22 then [CHR 0x5C, CHR 0x22]
      else if c = CHR 0x5C then [CHR 0x5C, CHR 0x5C]
      else if c = CHR 0x08 then [CHR 0x5C, CHR ''b'']
      else if c = CHR 0x09 then [CHR 0x5C, CHR ''t'']
      else if c = CHR 0x0A then [CHR 0x5C, CHR ''n'']
      else if c = CHR 0x0C then [CHR 0x5C, CHR ''f'']
      else if c = CHR 0x0D then [CHR 0x5C, CHR ''r'']
      else if (of_char c :: nat) < 32
        then [CHR 0x5C, CHR ''u'', CHR ''0'', CHR ''0'',
              hex_digit (of_char c div 16), hex_digit (of_char c)]
      else [c])"

definition json_string :: "string \<Rightarrow> string" where
  "json_string s = [CHR 0x22] @ concat (map json_char s) @ [CHR 0x22]"

definition json_member :: "string \<Rightarrow> string \<Rightarrow> string" where
  "json_member k v = ''  '' @ json_string k @ '': '' @ json_string v"

fun json_members :: "(string \<times> string) list \<Rightarrow> string" where
  "json_members [] = []"
| "json_members [(k, v)] = json_member k v"
| "json_members ((k, v) # kvs) = json_member k v @ '',\<newline>'' @ json_members kvs"

definition json_object :: "(string \<times> string) list \<Rightarrow> string" where
  "json_object kvs = (if kvs = [] then ''{}'' else ''{\<newline>'' @ json_members kvs @ ''\<newline>}'')"

definition json_phase :: "PhaseOutput \<Rightarrow> string" where
  "json_phase r =
     json_object
       ([(''phase'', phase r), (''timestamp'', timestamp r), (''result'', result r)]
        @ (case error r of None \<Rightarrow> [] | Some e \<Rightarrow> [(''error'', e)]))"

definition node :: runtime where
  "node =
     \<lparr>path_join = posix_join,
      toUpperCase = map ascii_upper,
      toISOString = iso8601,
      stringify_phase = json_phase,
      stringify_results = json_object\<rparr>"

text \<open>
  Two worlds with no instruction files, in which the directories are the root,
  \<open>/repo\<close>, \<open>/repo/instructions\<close> and \<open>/repo/outputs\<close>. In \<open>ticking\<close> every clock
  reading is a quarter of a second later than the one before; in \<open>quick\<close> four readings
  in a row fall into the same millisecond.
\<close>

definition ticking :: state where
  "ticking =
     \<lparr>instructionsDir = ''/repo/instructions'',
      outputDir = ''/repo/outputs'',
      phaseResults = Map.empty,
      files = Map.empty,
      clock = (\<lambda>k. 1767875400000 + 250 * k),
      reads = 0,
      warnings = [],
      prompts = [],
      saved = [],
      writable = (\<lambda>path. posix_dirname path
                    \<in> set [''/'', ''/repo'', ''/repo/instructions'', ''/repo/outputs''])\<rparr>"

definition quick :: state where
  "quick = ticking\<lparr>clock := (\<lambda>k. 1767875400000 + k div 4)\<rparr>"

text \<open>
  Objects whose \<open>runPhase\<close> is replaced for a test of the pipeline: the phase of the
  given name is rejected with an error, as a worker that times out would do it; the other
  phases go to the class's own method.
\<close>

definition fails_at :: "string \<Rightarrow> executor" where
  "fails_at failing s phaseName taskDescription previousResults =
     (if phaseName = failing then (Inl (Thrown ''worker timed out''), s)
      else runPhase node s phaseName taskDescription previousResults)"

section \<open>Payload assembly\<close>

lemma appendPrevious_concat:
  "appendPrevious R acc entries = acc @ concat (map (\<lambda>(p, r). contextBlock R p r) entries)"
  by (induction entries arbitrary: acc) auto

lemma fullPrompt_None:
  "fullPrompt R task None instr = task @ ''\<newline>\<newline>## Phase Instructions:\<newline>'' @ instr"
  by (simp add: fullPrompt_def)

lemma fullPrompt_Some:
  "fullPrompt R task (Some entries) instr =
     task
     @ (if entries = [] then []
        else ''\<newline>\<newline>## Context from Previous Phases:\<newline>''
             @ concat (map (\<lambda>(p, r). contextBlock R p r) entries))
     @ ''\<newline>\<newline>## Phase Instructions:\<newline>'' @ instr"
  by (simp add: fullPrompt_def appendPrevious_concat)

section \<open>One phase\<close>

lemma loadInstructionFile_state:
  "snd (loadInstructionFile R s filename) =
     s\<lparr>warnings := warnings s @
        (case files s (path_join R (instructionsDir s) filename) of
           None \<Rightarrow> [''Instruction file not found: '' @ path_join R (instructionsDir s) filename
                      @ '', using default instructions'']
         | Some text \<Rightarrow> [])\<rparr>"
  by (simp add: loadInstructionFile_def Let_def split: option.split)

lemma savePhaseOutput_eq:
  "savePhaseOutput R s r =
     (if plain (phase r) \<or> writable s (phaseFile R s (phase r) (clock s (reads s)))
      then (Inr (phaseFile R s (phase r) (clock s (reads s))),
            s\<lparr>reads := Suc (reads s),
              files := (files s)(phaseFile R s (phase r) (clock s (reads s)) \<mapsto> stringify_phase R r),
              saved := saved s @ [(phaseFile R s (phase r) (clock s (reads s)), r)]\<rparr>)
      else (Inl (WriteFailed (phaseFile R s (phase r) (clock s (reads s)))),
            s\<lparr>reads := Suc (reads s)\<rparr>))"
  by (simp add: savePhaseOutput_def new_Date_def phaseFile_def phaseFileName_def Let_def)

lemma runPhase_Config:
  assumes "getAgentConfig R phaseName = Config c" and "saves R s phaseName"
  shows "runPhase R s phaseName task prev =
    (Inr (placeholder R phaseName),
     s\<lparr>warnings := instructionWarnings R s phaseName,
       prompts := prompts s @ [(phaseName, fullPrompt R task prev (phaseInstructions R s phaseName))],
       reads := Suc (Suc (reads s)),
       files := (files s)(phaseFile R s phaseName (clock s (Suc (reads s))) \<mapsto>
          stringify_phase R (phaseRecord R s phaseName)),
       saved := saved s @ [(phaseFile R s phaseName (clock s (Suc (reads s))),
          phaseRecord R s phaseName)],
       phaseResults := (phaseResults s)(phaseName \<mapsto> placeholder R phaseName)\<rparr>)"
  using assms
  by (simp add: runPhase_def savePhaseOutput_eq new_Date_def phaseInstructions_def phaseFile_def
      instructionWarnings_def phaseRecord_def saves_def loadInstructionFile_state Let_def
      case_prod_beta)

lemma runPhase_unsaved:
  assumes "getAgentConfig R phaseName = Config c" and "\<not> saves R s phaseName"
  shows "runPhase R s phaseName task prev =
    (Inl (WriteFailed (phaseFile R s phaseName (clock s (Suc (reads s))))),
     s\<lparr>warnings := instructionWarnings R s phaseName,
       prompts := prompts s @ [(phaseName, fullPrompt R task prev (phaseInstructions R s phaseName))],
       reads := Suc (Suc (reads s))\<rparr>)"
  using assms
  by (simp add: runPhase_def savePhaseOutput_eq new_Date_def phaseInstructions_def phaseFile_def
      instructionWarnings_def phaseRecord_def saves_def loadInstructionFile_state Let_def
      case_prod_beta)

lemma runPhase_Inherited:
  assumes "getAgentConfig R phaseName = Inherited m"
  shows "runPhase R s phaseName task prev =
    (Inl (TypeError ''Cannot read properties of undefined (reading 'join')''),
     s\<lparr>warnings := instructionWarnings R s phaseName,
       prompts := prompts s @ [(phaseName, fullPrompt R task prev (phaseInstructions R s phaseName))],
       reads := Suc (reads s)\<rparr>)"
  using assms
  by (simp add: runPhase_def savePhaseOutput_eq new_Date_def phaseInstructions_def phaseFile_def
      instructionWarnings_def loadInstructionFile_state Let_def case_prod_beta)

lemma runPhase_resolved:
  assumes "getAgentConfig R phaseName = Config c" and "saves R s phaseName"
  shows "runPhase R s phaseName task prev =
           (Inr (placeholder R phaseName), phaseState R s phaseName task prev)"
  by (simp add: phaseState_def runPhase_Config [OF assms])

lemma phaseState_Config:
  assumes "getAgentConfig R phaseName = Config c" and "saves R s phaseName"
  shows "phaseState R s phaseName task prev =
     s\<lparr>warnings := instructionWarnings R s phaseName,
       prompts := prompts s @ [(phaseName, fullPrompt R task prev (phaseInstructions R s phaseName))],
       reads := Suc (Suc (reads s)),
       files := (files s)(phaseFile R s phaseName (clock s (Suc (reads s))) \<mapsto>
          stringify_phase R (phaseRecord R s phaseName)),
       saved := saved s @ [(phaseFile R s phaseName (clock s (Suc (reads s))),
          phaseRecord R s phaseName)],
       phaseResults := (phaseResults s)(phaseName \<mapsto> placeholder R phaseName)\<rparr>"
  by (simp add: phaseState_def runPhase_Config [OF assms])

lemma phaseState_frame:
  assumes "getAgentConfig R phaseName = Config c" and "saves R s phaseName"
  shows "clock (phaseState R s phaseName task prev) = clock s"
    and "outputDir (phaseState R s phaseName task prev) = outputDir s"
    and "instructionsDir (phaseState R s phaseName task prev) = instructionsDir s"
    and "writable (phaseState R s phaseName task prev) = writable s"
    and "reads (phaseState R s phaseName task prev) = Suc (Suc (reads s))"
  by (simp_all add: phaseState_Config [OF assms])

lemma phaseState_saved:
  assumes "getAgentConfig R phaseName = Config c" and "saves R s phaseName"
  shows "saved (phaseState R s phaseName task prev) =
           saved s @ [(phaseFile R s phaseName (clock s (Suc (reads s))), phaseRecord R s phaseName)]"
  by (simp add: phaseState_Config [OF assms])

lemma phaseState_prompts:
  assumes "getAgentConfig R phaseName = Config c" and "saves R s phaseName"
  shows "prompts (phaseState R s phaseName task prev) =
           prompts s @ [(phaseName, fullPrompt R task prev (phaseInstructions R s phaseName))]"
  by (simp add: phaseState_Config [OF assms])

lemma phaseState_files:
  assumes "getAgentConfig R phaseName = Config c" and "saves R s phaseName"
  shows "files (phaseState R s phaseName task prev) =
           (files s)(phaseFile R s phaseName (clock s (Suc (reads s))) \<mapsto>
              stringify_phase R (phaseRecord R s phaseName))"
  by (simp add: phaseState_Config [OF assms])

section \<open>A run\<close>

lemma config_research: "\<exists>c. getAgentConfig R ''research'' = Config c"
  by (simp add: getAgentConfig_def configs_def)

lemma config_plan: "\<exists>c. getAgentConfig R ''plan'' = Config c"
  by (simp add: getAgentConfig_def configs_def)

lemma config_implement: "\<exists>c. getAgentConfig R ''implement'' = Config c"
  by (simp add: getAgentConfig_def configs_def)

lemma config_correct: "\<exists>c. getAgentConfig R ''correct'' = Config c"
  by (simp add: getAgentConfig_def configs_def)

lemma saves_own:
  "saves R s ''research''" "saves R s ''plan''" "saves R s ''implement''" "saves R s ''correct''"
  by (simp_all add: saves_def plain_def)

lemma runPhase_research:
  "runPhase R s ''research'' task prev =
     (Inr (placeholder R ''research''), phaseState R s ''research'' task prev)"
  using config_research [of R] by (auto intro: runPhase_resolved saves_own)

lemma runPhase_plan:
  "runPhase R s ''plan'' task prev = (Inr (placeholder R ''plan''), phaseState R s ''plan'' task prev)"
  using config_plan [of R] by (auto intro: runPhase_resolved saves_own)

lemma runPhase_implement:
  "runPhase R s ''implement'' task prev =
     (Inr (placeholder R ''implement''), phaseState R s ''implement'' task prev)"
  using config_implement [of R] by (auto intro: runPhase_resolved saves_own)

lemma runPhase_correct:
  "runPhase R s ''correct'' task prev =
     (Inr (placeholder R ''correct''), phaseState R s ''correct'' task prev)"
  using config_correct [of R] by (auto intro: runPhase_resolved saves_own)

lemma orchestrate_own: "orchestrate R s task = orchestrate_with (runPhase R) R s task"
  by (simp add: orchestrate_def orchestrate_with_def)

lemma orchestrate_eq:
  "orchestrate R s task =
     (Inr (summary R),
      (afterCorrect R s task)
        \<lparr>reads := Suc (reads (afterCorrect R s task)),
         files := (files (afterCorrect R s task))
           (summaryFile R (afterCorrect R s task)
              (clock (afterCorrect R s task) (reads (afterCorrect R s task)))
            \<mapsto> stringify_results R (summary R))\<rparr>)"
  by (simp add: orchestrate_def runPhase_research runPhase_plan runPhase_implement runPhase_correct
      afterResearch_def afterPlan_def afterImplement_def afterCorrect_def summary_def
      summaryFile_def new_Date_def Let_def)

lemma afterResearch_frame:
  "clock (afterResearch R s task) = clock s"
  "outputDir (afterResearch R s task) = outputDir s"
  "instructionsDir (afterResearch R s task) = instructionsDir s"
  "reads (afterResearch R s task) = reads s + 2"
  using config_research [of R] by (auto simp: afterResearch_def phaseState_frame saves_own)

lemma afterPlan_frame:
  "clock (afterPlan R s task) = clock s"
  "outputDir (afterPlan R s task) = outputDir s"
  "instructionsDir (afterPlan R s task) = instructionsDir s"
  "reads (afterPlan R s task) = reads s + 4"
  using config_plan [of R]
  by (auto simp: afterPlan_def phaseState_frame afterResearch_frame saves_own)

lemma afterImplement_frame:
  "clock (afterImplement R s task) = clock s"
  "outputDir (afterImplement R s task) = outputDir s"
  "instructionsDir (afterImplement R s task) = instructionsDir s"
  "reads (afterImplement R s task) = reads s + 6"
  using config_implement [of R]
  by (auto simp: afterImplement_def phaseState_frame afterPlan_frame saves_own)

lemma afterCorrect_frame:
  "clock (afterCorrect R s task) = clock s"
  "outputDir (afterCorrect R s task) = outputDir s"
  "instructionsDir (afterCorrect R s task) = instructionsDir s"
  "reads (afterCorrect R s task) = reads s + 8"
  using config_correct [of R]
  by (auto simp: afterCorrect_def phaseState_frame afterImplement_frame saves_own)

lemma placeholder_nonempty: "placeholder R phaseName \<noteq> []"
  by (simp add: placeholder_def)

text \<open>
  Claim C1. Whatever the task, the platform and the state, \<open>orchestrate\<close> returns, and
  what it returns and writes as the run's summary has one entry for each of the four phases,
  in the order research, plan, implement, correct; the value of every entry is a placeholder
  text, which is not empty.
\<close>

theorem C1_orchestrate_results:
  "fst (orchestrate R s task) =
     Inr [(''research'', placeholder R ''research''), (''plan'', placeholder R ''plan''),
          (''implement'', placeholder R ''implement''), (''correct'', placeholder R ''correct'')]
   \<and> placeholder R phaseName \<noteq> []
   \<and> files (snd (orchestrate R s task)) (summaryFile R s (clock s (reads s + 8))) =
       Some (stringify_results R
         [(''research'', placeholder R ''research''), (''plan'', placeholder R ''plan''),
          (''implement'', placeholder R ''implement''), (''correct'', placeholder R ''correct'')])"
  by (simp add: orchestrate_eq summary_def placeholder_nonempty afterCorrect_frame summaryFile_def)

section \<open>What a run saves and which payloads it assembles\<close>

lemma afterCorrect_saved:
  "saved (afterCorrect R s task) =
     saved s @
     [(phaseFile R s ''research'' (clock s (reads s + 1)), stamped R s ''research'' 0),
      (phaseFile R s ''plan'' (clock s (reads s + 3)), stamped R s ''plan'' 2),
      (phaseFile R s ''implement'' (clock s (reads s + 5)), stamped R s ''implement'' 4),
      (phaseFile R s ''correct'' (clock s (reads s + 7)), stamped R s ''correct'' 6)]"
proof -
  from config_research obtain c1 where c1: "getAgentConfig R ''research'' = Config c1" ..
  from config_plan obtain c2 where c2: "getAgentConfig R ''plan'' = Config c2" ..
  from config_implement obtain c3 where c3: "getAgentConfig R ''implement'' = Config c3" ..
  from config_correct obtain c4 where c4: "getAgentConfig R ''correct'' = Config c4" ..
  have 1: "saved (afterResearch R s task) =
      saved s @ [(phaseFile R s ''research'' (clock s (reads s + 1)), stamped R s ''research'' 0)]"
    by (simp add: afterResearch_def phaseState_saved [OF c1 saves_own(1)] phaseRecord_def
        stamped_def phaseFile_def)
  have 2: "saved (afterPlan R s task) =
      saved (afterResearch R s task) @
      [(phaseFile R s ''plan'' (clock s (reads s + 3)), stamped R s ''plan'' 2)]"
    unfolding afterPlan_def phaseState_saved [OF c2 saves_own(2)]
    by (simp add: phaseRecord_def stamped_def afterResearch_frame phaseFile_def eval_nat_numeral)
  have 3: "saved (afterImplement R s task) =
      saved (afterPlan R s task) @
      [(phaseFile R s ''implement'' (clock s (reads s + 5)), stamped R s ''implement'' 4)]"
    unfolding afterImplement_def phaseState_saved [OF c3 saves_own(3)]
    by (simp add: phaseRecord_def stamped_def afterPlan_frame phaseFile_def eval_nat_numeral)
  have 4: "saved (afterCorrect R s task) =
      saved (afterImplement R s task) @
      [(phaseFile R s ''correct'' (clock s (reads s + 7)), stamped R s ''correct'' 6)]"
    unfolding afterCorrect_def phaseState_saved [OF c4 saves_own(4)]
    by (simp add: phaseRecord_def stamped_def afterImplement_frame phaseFile_def eval_nat_numeral)
  show ?thesis by (simp add: 1 2 3 4)
qed

lemma afterCorrect_prompts:
  "prompts (afterCorrect R s task) =
     prompts s @
     [(''research'', fullPrompt R (researchTask task) None (phaseInstructions R s ''research'')),
      (''plan'', fullPrompt R (planTask task)
         (Some [(''research'', placeholder R ''research'')])
         (phaseInstructions R (afterResearch R s task) ''plan'')),
      (''implement'', fullPrompt R (implementTask task)
         (Some [(''research'', placeholder R ''research''), (''plan'', placeholder R ''plan'')])
         (phaseInstructions R (afterPlan R s task) ''implement'')),
      (''correct'', fullPrompt R (correctTask task)
         (Some [(''research'', placeholder R ''research''), (''plan'', placeholder R ''plan''),
                (''implement'', placeholder R ''implement'')])
         (phaseInstructions R (afterImplement R s task) ''correct''))]"
proof -
  from config_research obtain c1 where c1: "getAgentConfig R ''research'' = Config c1" ..
  from config_plan obtain c2 where c2: "getAgentConfig R ''plan'' = Config c2" ..
  from config_implement obtain c3 where c3: "getAgentConfig R ''implement'' = Config c3" ..
  from config_correct obtain c4 where c4: "getAgentConfig R ''correct'' = Config c4" ..
  show ?thesis
    unfolding afterCorrect_def phaseState_prompts [OF c4 saves_own(4)]
    unfolding afterImplement_def phaseState_prompts [OF c3 saves_own(3)]
    unfolding afterPlan_def phaseState_prompts [OF c2 saves_own(2)]
    unfolding afterResearch_def phaseState_prompts [OF c1 saves_own(1)]
    by simp
qed

lemma orchestrate_saved: "saved (snd (orchestrate R s task)) = saved (afterCorrect R s task)"
  by (simp add: orchestrate_eq)

lemma orchestrate_prompts: "prompts (snd (orchestrate R s task)) = prompts (afterCorrect R s task)"
  by (simp add: orchestrate_eq)


section \<open>The result of a phase\<close>

lemma runPhase_outcome:
  "fst (runPhase R s phaseName task prev) =
     (case getAgentConfig R phaseName of
        Config c \<Rightarrow>
          if saves R s phaseName then Inr (placeholder R phaseName)
          else Inl (WriteFailed (phaseFile R s phaseName (clock s (Suc (reads s)))))
      | Inherited m \<Rightarrow> Inl (TypeError ''Cannot read properties of undefined (reading 'join')''))"
  by (cases "getAgentConfig R phaseName")
     (simp_all add: runPhase_Config runPhase_unsaved runPhase_Inherited)

lemma runPhase_saved:
  "saved (snd (runPhase R s phaseName task prev)) =
     saved s @
     (case fst (runPhase R s phaseName task prev) of
        Inr text \<Rightarrow>
          [(phaseFile R s phaseName (clock s (Suc (reads s))), phaseRecord R s phaseName)]
      | Inl e \<Rightarrow> [])"
  by (cases "getAgentConfig R phaseName"; cases "saves R s phaseName")
     (simp_all add: runPhase_Config runPhase_unsaved runPhase_Inherited)

lemma runPhase_files:
  "files (snd (runPhase R s phaseName task prev)) =
     (case fst (runPhase R s phaseName task prev) of
        Inr text \<Rightarrow>
          (files s)(phaseFile R s phaseName (clock s (Suc (reads s))) \<mapsto>
             stringify_phase R (phaseRecord R s phaseName))
      | Inl e \<Rightarrow> files s)"
  by (cases "getAgentConfig R phaseName"; cases "saves R s phaseName")
     (simp_all add: runPhase_Config runPhase_unsaved runPhase_Inherited)

lemma runPhase_returns:
  assumes "getAgentConfig R phaseName = Config c" and "plain phaseName"
  shows "fst (runPhase R s phaseName task prev) = Inr (placeholder R phaseName)"
  using assms by (simp add: runPhase_outcome saves_def)

lemma runPhase_returned_text:
  assumes "fst (runPhase R s phaseName task prev) = Inr text"
  shows "text = placeholder R phaseName"
  using assms
  by (cases "getAgentConfig R phaseName"; cases "saves R s phaseName")
     (simp_all add: runPhase_outcome)

section \<open>The concrete platform and worlds, evaluated\<close>

lemmas iso_defs = iso8601_def civil_year_def civil_month_def civil_day_def month_from_march_def
  day_of_year_def year_of_era_def day_of_era_def digits2_def digits3_def digits4_def digits6_def digit_def

lemma iso_quick:
  "iso8601 1767875400000 = ''2026-01-08T12:30:00.000Z''"
  "iso8601 1767875400001 = ''2026-01-08T12:30:00.001Z''"
  by (simp_all add: iso_defs)

lemma iso_ticking:
  "iso8601 1767875400250 = ''2026-01-08T12:30:00.250Z''"
  "iso8601 1767875400500 = ''2026-01-08T12:30:00.500Z''"
  "iso8601 1767875400750 = ''2026-01-08T12:30:00.750Z''"
  "iso8601 1767875401000 = ''2026-01-08T12:30:01.000Z''"
  "iso8601 1767875401250 = ''2026-01-08T12:30:01.250Z''"
  "iso8601 1767875401500 = ''2026-01-08T12:30:01.500Z''"
  "iso8601 1767875401750 = ''2026-01-08T12:30:01.750Z''"
  by (simp_all add: iso_defs)

lemma split_slash_single: "CHR ''/'' \<notin> set name \<Longrightarrow> split_slash name = [name]"
  by (induction name) auto

lemma last_no_slash: "CHR ''/'' \<notin> set name \<Longrightarrow> name \<noteq> [] \<Longrightarrow> last name \<noteq> CHR ''/''"
  by (induction name) auto

lemma join_outputs:
  assumes "CHR ''/'' \<notin> set name" and "name \<noteq> []" and "name \<noteq> ''.''" and "name \<noteq> ''..''"
  shows "posix_join ''/repo/outputs'' name = ''/repo/outputs/'' @ name"
  using assms last_no_slash [OF assms(1,2)]
  by (simp add: posix_join_def posix_normalize_def split_slash_single)

lemma join_instructions:
  assumes "CHR ''/'' \<notin> set name" and "name \<noteq> []" and "name \<noteq> ''.''" and "name \<noteq> ''..''"
  shows "posix_join ''/repo/instructions'' name = ''/repo/instructions/'' @ name"
  using assms last_no_slash [OF assms(1,2)]
  by (simp add: posix_join_def posix_normalize_def split_slash_single)

lemma node_sel:
  "path_join node = posix_join"
  "toUpperCase node = map ascii_upper"
  "toISOString node = iso8601"
  "stringify_phase node = json_phase"
  "stringify_results node = json_object"
  by (simp_all add: node_def)

lemma ticking_sel:
  "outputDir ticking = ''/repo/outputs''"
  "instructionsDir ticking = ''/repo/instructions''"
  "clock ticking k = 1767875400000 + 250 * k"
  "reads ticking = 0"
  "files ticking = Map.empty"
  "saved ticking = []"
  "prompts ticking = []"
  "warnings ticking = []"
  by (simp_all add: ticking_def)

lemma quick_sel:
  "outputDir quick = ''/repo/outputs''"
  "instructionsDir quick = ''/repo/instructions''"
  "clock quick k = 1767875400000 + k div 4"
  "reads quick = 0"
  "files quick = Map.empty"
  "saved quick = []"
  "prompts quick = []"
  "warnings quick = []"
  by (simp_all add: quick_def ticking_def)

section \<open>Timestamps\<close>

lemma orchestrate_stamps:
  "map (timestamp \<circ> snd) (saved (snd (orchestrate R s task))) =
     map (timestamp \<circ> snd) (saved s) @
     map (\<lambda>k. toISOString R (clock s (reads s + k))) [0, 2, 4, 6]"
  by (simp add: orchestrate_saved afterCorrect_saved stamped_def)

lemma orchestrate_locators:
  "map fst (saved (snd (orchestrate R s task))) =
     map fst (saved s) @
     [phaseFile R s ''research'' (clock s (reads s + 1)),
      phaseFile R s ''plan'' (clock s (reads s + 3)),
      phaseFile R s ''implement'' (clock s (reads s + 5)),
      phaseFile R s ''correct'' (clock s (reads s + 7))]"
  by (simp add: orchestrate_saved afterCorrect_saved)

text \<open>
  Against claim C9 as stated. In the world \<open>quick\<close> the records of research and plan
  carry the same timestamp, and so do those of implement and correct: the timestamps of the
  run are not strictly increasing (\<open><\<close> on strings is the lexicographic order, which on
  timestamps of this form is the order of time).
\<close>

theorem C9_equal_timestamps:
  "map (timestamp \<circ> snd) (saved (snd (orchestrate node quick ''build X''))) =
     [''2026-01-08T12:30:00.000Z'', ''2026-01-08T12:30:00.000Z'',
      ''2026-01-08T12:30:00.001Z'', ''2026-01-08T12:30:00.001Z'']
   \<and> \<not> sorted_wrt (<)
         (map (timestamp \<circ> snd) (saved (snd (orchestrate node quick ''build X''))))"
  by (simp add: orchestrate_stamps quick_sel node_sel iso_quick)

text \<open>
  Claim C9, amended. The records of a run are stamped, in execution order, with the clock
  readings that the phases take when they build their records: the first, third, fifth and
  seventh reading of the run. With a clock that never goes back these times never decrease
  from one phase to the next; they are equal when the two readings fall into the same
  millisecond.
\<close>

theorem C9_timestamps_follow_clock:
  assumes "mono (clock s)"
  shows "map (timestamp \<circ> snd) (saved (snd (orchestrate R s task))) =
           map (timestamp \<circ> snd) (saved s) @
           map (\<lambda>k. toISOString R (clock s (reads s + k))) [0, 2, 4, 6]
         \<and> sorted (map (\<lambda>k. clock s (reads s + k)) [0, 2, 4, 6])"
  using assms by (simp add: orchestrate_stamps mono_def)

text \<open>The world \<open>ticking\<close> has such a clock, and there the four timestamps differ.\<close>

theorem C9_timestamps_follow_clock_witness:
  "mono (clock ticking)
   \<and> map (timestamp \<circ> snd) (saved (snd (orchestrate node ticking ''build X''))) =
       [''2026-01-08T12:30:00.000Z'', ''2026-01-08T12:30:00.500Z'',
        ''2026-01-08T12:30:01.000Z'', ''2026-01-08T12:30:01.500Z'']
   \<and> sorted (map (clock ticking) [0, 2, 4, 6])"
proof -
  have m: "mono (clock ticking)"
    by (simp add: mono_def ticking_sel)
  show ?thesis
    using m C9_timestamps_follow_clock [OF m, of node "''build X''"]
    by (simp add: ticking_sel node_sel iso_quick iso_ticking)
qed

section \<open>Locators\<close>

lemma phaseFileName_eq_iff:
  assumes "length (toISOString R t1) = length (toISOString R t2)"
  shows "phaseFileName R p1 t1 = phaseFileName R p2 t2 \<longleftrightarrow>
           p1 = p2 \<and> replace_colons (toISOString R t1) = replace_colons (toISOString R t2)"
proof -
  let ?T1 = "replace_colons (toISOString R t1)" and ?T2 = "replace_colons (toISOString R t2)"
  have len: "length (''_'' @ ?T1 @ ''.json'') = length (''_'' @ ?T2 @ ''.json'')"
    using assms by (simp add: replace_colons_def)
  have "phaseFileName R p1 t1 = phaseFileName R p2 t2 \<longleftrightarrow>
          p1 @ (''_'' @ ?T1 @ ''.json'') = p2 @ (''_'' @ ?T2 @ ''.json'')"
    by (simp add: phaseFileName_def)
  also have "\<dots> \<longleftrightarrow> p1 = p2 \<and> ''_'' @ ?T1 @ ''.json'' = ''_'' @ ?T2 @ ''.json''"
    using len by (rule append_eq_append_conv [OF disjI2])
  also have "\<dots> \<longleftrightarrow> p1 = p2 \<and> ?T1 = ?T2"
    by simp
  finally show ?thesis .
qed


lemma savePhaseOutput_returned:
  assumes "fst (savePhaseOutput R s r) = Inr locator"
  shows "locator = path_join R (outputDir s)
           (phase r @ ''_'' @ replace_colons (toISOString R (clock s (reads s))) @ ''.json'')"
    and "files (snd (savePhaseOutput R s r)) locator = Some (stringify_phase R r)"
    and "saved (snd (savePhaseOutput R s r)) = saved s @ [(locator, r)]"
  using assms
  by (auto simp: savePhaseOutput_eq phaseFile_def phaseFileName_def split: if_splits)

text \<open>
  Claim C6, amended. A call of \<open>savePhaseOutput\<close> that returns has written the record
  to the locator it returns, which is \<open>path.join\<close> of the output directory and the file
  name \<open><phase>_<timestamp>.json\<close>, where the timestamp is the clock reading at the call
  with every \<open>:\<close> replaced by \<open>-\<close>. The four records of a run get the file names of
  their phases at the second, fourth, sixth and eighth clock reading of the run. Two such
  file names, with timestamps of one length, are equal exactly when the phase and the
  written timestamp are equal: a name is new when the phase or the millisecond differs from
  those of the earlier calls, and is used again otherwise. The name begins with the phase,
  not with the time.
\<close>

theorem C6_locator_naming:
  assumes "length (toISOString R t1) = length (toISOString R t2)"
    and "fst (savePhaseOutput R s r) = Inr locator"
  shows "locator = path_join R (outputDir s)
           (phase r @ ''_'' @ replace_colons (toISOString R (clock s (reads s))) @ ''.json'')
         \<and> files (snd (savePhaseOutput R s r)) locator = Some (stringify_phase R r)
         \<and> map fst (saved (snd (orchestrate R s task))) =
             map fst (saved s) @
             [path_join R (outputDir s) (phaseFileName R ''research'' (clock s (reads s + 1))),
              path_join R (outputDir s) (phaseFileName R ''plan'' (clock s (reads s + 3))),
              path_join R (outputDir s) (phaseFileName R ''implement'' (clock s (reads s + 5))),
              path_join R (outputDir s) (phaseFileName R ''correct'' (clock s (reads s + 7)))]
         \<and> phaseFileName R p1 t1 = p1 @ ''_'' @ replace_colons (toISOString R t1) @ ''.json''
         \<and> (phaseFileName R p1 t1 = phaseFileName R p2 t2 \<longleftrightarrow>
              p1 = p2 \<and> replace_colons (toISOString R t1) = replace_colons (toISOString R t2))"
  using phaseFileName_eq_iff [OF assms(1)] savePhaseOutput_returned [OF assms(2)]
  by (simp add: orchestrate_locators phaseFile_def) (simp add: phaseFileName_def)

text \<open>
  In the world \<open>ticking\<close> a save of the research record returns its locator and writes
  the file, and the four locators of a run differ from each other.
\<close>

theorem C6_locator_naming_witness:
  "length (toISOString node 1767875400250) = length (toISOString node 1767875400750)
   \<and> fst (savePhaseOutput node ticking (stamped node ticking ''research'' 0)) =
       Inr ''/repo/outputs/research_2026-01-08T12-30-00.000Z.json''
   \<and> files (snd (savePhaseOutput node ticking (stamped node ticking ''research'' 0)))
         ''/repo/outputs/research_2026-01-08T12-30-00.000Z.json'' =
       Some (stringify_phase node (stamped node ticking ''research'' 0))
   \<and> map fst (saved (snd (orchestrate node ticking ''build X''))) =
       [''/repo/outputs/research_2026-01-08T12-30-00.250Z.json'',
        ''/repo/outputs/plan_2026-01-08T12-30-00.750Z.json'',
        ''/repo/outputs/implement_2026-01-08T12-30-01.250Z.json'',
        ''/repo/outputs/correct_2026-01-08T12-30-01.750Z.json'']
   \<and> phaseFileName node ''research'' 1767875400250 \<noteq> phaseFileName node ''plan'' 1767875400750"
proof -
  have l: "length (toISOString node 1767875400250) = length (toISOString node 1767875400750)"
    by (simp add: node_sel iso_ticking)
  have f: "fst (savePhaseOutput node ticking (stamped node ticking ''research'' 0)) =
       Inr ''/repo/outputs/research_2026-01-08T12-30-00.000Z.json''"
    by (simp add: savePhaseOutput_eq stamped_def plain_def phaseFile_def phaseFileName_def
        ticking_sel node_sel iso_quick replace_colons_def join_outputs)
  have n: "phaseFileName node ''research'' 1767875400250 \<noteq> phaseFileName node ''plan'' 1767875400750"
    by (simp add: phaseFileName_def)
  have o: "map fst (saved (snd (orchestrate node ticking ''build X''))) =
       [''/repo/outputs/research_2026-01-08T12-30-00.250Z.json'',
        ''/repo/outputs/plan_2026-01-08T12-30-00.750Z.json'',
        ''/repo/outputs/implement_2026-01-08T12-30-01.250Z.json'',
        ''/repo/outputs/correct_2026-01-08T12-30-01.750Z.json'']"
    using C6_locator_naming [OF l f, of "''build X''" "''research''" "''plan''"]
    by (simp add: ticking_sel node_sel iso_ticking phaseFileName_def replace_colons_def
        join_outputs)
  have w: "files (snd (savePhaseOutput node ticking (stamped node ticking ''research'' 0)))
         ''/repo/outputs/research_2026-01-08T12-30-00.000Z.json'' =
       Some (stringify_phase node (stamped node ticking ''research'' 0))"
    by (rule C6_locator_naming [OF l f, THEN conjunct2, THEN conjunct1])
  show ?thesis
    using l f w o n by simp
qed

lemma runPhase_twice_saved:
  assumes "getAgentConfig R phaseName = Config c" and "plain phaseName"
  shows "map fst (saved (snd (runPhase R (snd (runPhase R s phaseName task prev)) phaseName task' prev'))) =
           map fst (saved s) @
           [phaseFile R s phaseName (clock s (reads s + 1)),
            phaseFile R s phaseName (clock s (reads s + 3))]"
proof -
  have s1: "saves R s phaseName" and s2: "saves R (phaseState R s phaseName task prev) phaseName"
    using assms(2) by (simp_all add: saves_def)
  show ?thesis
    by (simp add: phaseState_def [symmetric] runPhase_Config [OF assms(1) s2]
        phaseState_frame [OF assms(1) s1] phaseState_saved [OF assms(1) s1] phaseFile_def
        eval_nat_numeral)
qed

text \<open>
  Against claim C6 as stated. In the world \<open>quick\<close>, running the research phase twice
  saves both records under one locator, so the second write replaces the first file. And
  in the world \<open>ticking\<close>, where every locator of the run has a time of its own, the
  locators in the order of their creation are not in the order of their names
  (\<open>research_...\<close> is created first and sorts last).
\<close>

theorem C6_same_locator_twice:
  "map fst (saved (snd (runPhase node
       (snd (runPhase node quick ''research'' (researchTask ''build X'') None))
       ''research'' (researchTask ''build X'') None))) =
     [''/repo/outputs/research_2026-01-08T12-30-00.000Z.json'',
      ''/repo/outputs/research_2026-01-08T12-30-00.000Z.json'']
   \<and> \<not> sorted (map fst (saved (snd (orchestrate node ticking ''build X''))))"
proof -
  obtain c where c: "getAgentConfig node ''research'' = Config c"
    using config_research ..
  have p: "plain ''research''"
    by (simp add: plain_def)
  have 1: "map fst (saved (snd (runPhase node
       (snd (runPhase node quick ''research'' (researchTask ''build X'') None))
       ''research'' (researchTask ''build X'') None))) =
     [''/repo/outputs/research_2026-01-08T12-30-00.000Z.json'',
      ''/repo/outputs/research_2026-01-08T12-30-00.000Z.json'']"
    by (simp add: runPhase_twice_saved [OF c p] quick_sel node_sel iso_quick phaseFile_def
        phaseFileName_def replace_colons_def join_outputs)
  have 2: "\<not> sorted (map fst (saved (snd (orchestrate node ticking ''build X''))))"
    by (simp add: orchestrate_locators ticking_sel node_sel iso_ticking phaseFile_def
        phaseFileName_def replace_colons_def join_outputs less_char_def)
  show ?thesis using 1 2 by (rule conjI)
qed

section \<open>The registry\<close>

lemma getAgentConfig_own:
  "getAgentConfig R ''research'' = Config
     \<lparr>description = ''Research specialist for thorough analysis and requirement gathering'',
      tools = [''Read'', ''Grep'', ''Glob'', ''WebSearch'', ''WebFetch'', ''Task''],
      model = Some ''opus''\<rparr>"
  "getAgentConfig R ''plan'' = Config
     \<lparr>description = ''Planning expert for creating detailed implementation plans'',
      tools = [''Read'', ''Write'', ''Grep'', ''Glob'', ''Task''],
      model = Some ''opus''\<rparr>"
  "getAgentConfig R ''implement'' = Config
     \<lparr>description = ''Expert developer for implementing code following specifications'',
      tools = [''Read'', ''Write'', ''Edit'', ''Bash'', ''Grep'', ''Glob'', ''TodoWrite''],
      model = Some ''sonnet''\<rparr>"
  "getAgentConfig R ''correct'' = Config
     \<lparr>description = ''Quality assurance expert for reviewing and correcting implementations'',
      tools = [''Read'', ''Edit'', ''Bash'', ''Grep'', ''Glob'', ''TodoWrite''],
      model = Some ''opus''\<rparr>"
  by (simp_all add: getAgentConfig_def configs_def)

lemma getAgentConfig_default:
  assumes "phaseName \<notin> {''research'', ''plan'', ''implement'', ''correct''}"
    and "phaseName \<notin> set object_prototype_keys"
  shows "getAgentConfig R phaseName = Config
     \<lparr>description = toUpperCase R (take 1 phaseName) @ drop 1 phaseName @ '' phase specialist'',
      tools = [''Read'', ''Write'', ''Grep'', ''Glob''],
      model = Some ''sonnet''\<rparr>"
proof -
  have "map_of configs phaseName = None"
    using assms(1) by (simp add: configs_def)
  then show ?thesis
    using assms(2) by (simp add: getAgentConfig_def charAt_def slice_from_def)
qed


text \<open>
  Claim C8, at the names it fails for. For each of the twelve names that
  \<open>Object.prototype\<close> defines, \<open>getAgentConfig\<close> returns the inherited member
  instead of a synthesized default configuration, and \<open>runPhase\<close> of such a name is
  rejected with a \<open>TypeError\<close>. For every other name a configuration is returned
  (\<open>getAgentConfig_own\<close>, \<open>getAgentConfig_default\<close>, \<open>getAgentConfig_resolves\<close>).
\<close>

theorem C8_inherited_member_returned:
  "map (getAgentConfig R) object_prototype_keys = map Inherited object_prototype_keys
   \<and> getAgentConfig R ''constructor'' = Inherited ''constructor''
   \<and> fst (runPhase R s ''constructor'' task prev) =
       Inl (TypeError ''Cannot read properties of undefined (reading 'join')'')"
proof -
  have 1: "map (getAgentConfig R) object_prototype_keys = map Inherited object_prototype_keys"
    by (simp add: getAgentConfig_def configs_def object_prototype_keys_def)
  have 2: "getAgentConfig R ''constructor'' = Inherited ''constructor''"
    by (simp add: getAgentConfig_def configs_def object_prototype_keys_def)
  show ?thesis
    using 1 2 by (simp add: runPhase_outcome)
qed


section \<open>Truncation of earlier results\<close>

lemma preview_eq:
  "preview r = take (min (length r) 1000) r @ (if 1000 < length r then ''...'' else [])"
  by (simp add: preview_def substring_def)

lemma contextBlock_eq:
  "contextBlock R prevPhase r =
     ''\<newline>### '' @ toUpperCase R prevPhase @ '' Phase:\<newline>''
     @ take (min (length r) 1000) r @ (if 1000 < length r then ''...'' else []) @ ''\<newline>''"
  by (simp add: contextBlock_def preview_eq)

lemma contextBlock_abs:
  "(\<lambda>(p, x). contextBlock R p x) =
   (\<lambda>(p, x). ''\<newline>### '' @ toUpperCase R p @ '' Phase:\<newline>''
        @ take (min (length x) 1000) x @ (if 1000 < length x then ''...'' else []) @ ''\<newline>'')"
  by (simp add: contextBlock_eq fun_eq_iff)

text \<open>
  Claim C4. An earlier result of length \<open>L\<close> enters a payload in the labelled block of
  its phase as its first \<open>min L 1000\<close> units, followed by the marker \<open>...\<close> exactly when
  \<open>L\<close> exceeds 1000; this is the block of every entry of the earlier results in the payload
  that \<open>runPhase\<close> assembles. A result of exactly 1000 units stands in its block whole and
  without the marker. The threshold is the constant 1000 of the source.
\<close>

theorem C4_truncation_law:
  "contextBlock R prevPhase r =
     ''\<newline>### '' @ toUpperCase R prevPhase @ '' Phase:\<newline>''
     @ take (min (length r) 1000) r @ (if 1000 < length r then ''...'' else []) @ ''\<newline>''
   \<and> fullPrompt R task (Some ((prevPhase, r) # entries)) instructions =
       task @ ''\<newline>\<newline>## Context from Previous Phases:\<newline>''
       @ (''\<newline>### '' @ toUpperCase R prevPhase @ '' Phase:\<newline>''
          @ take (min (length r) 1000) r @ (if 1000 < length r then ''...'' else []) @ ''\<newline>'')
       @ concat (map (\<lambda>(p, x). ''\<newline>### '' @ toUpperCase R p @ '' Phase:\<newline>''
            @ take (min (length x) 1000) x @ (if 1000 < length x then ''...'' else []) @ ''\<newline>'')
          entries)
       @ ''\<newline>\<newline>## Phase Instructions:\<newline>'' @ instructions
   \<and> length (take (min (length r) 1000) r) = min (length r) 1000
   \<and> (length r = 1000 \<longrightarrow>
        contextBlock R prevPhase r =
          ''\<newline>### '' @ toUpperCase R prevPhase @ '' Phase:\<newline>'' @ r @ ''\<newline>'')"
  by (simp add: fullPrompt_Some contextBlock_abs) (simp add: contextBlock_eq)

text \<open>
  On the concrete platform a result of 1000 units is in the block as it is, and one of 1001
  units is cut to its first 1000 units and marked.
\<close>

theorem C4_truncation_law_witness:
  "length (replicate 1000 (CHR ''x'')) = 1000
   \<and> contextBlock node ''plan'' (replicate 1000 (CHR ''x'')) =
       ''\<newline>### PLAN Phase:\<newline>'' @ replicate 1000 (CHR ''x'') @ ''\<newline>''
   \<and> contextBlock node ''plan'' (replicate 1001 (CHR ''x'')) =
       ''\<newline>### PLAN Phase:\<newline>'' @ replicate 1000 (CHR ''x'') @ ''...'' @ ''\<newline>''"
proof -
  have u: "toUpperCase node ''plan'' = ''PLAN''"
    by (simp add: node_sel ascii_upper_def)
  have 1: "contextBlock node ''plan'' (replicate 1000 (CHR ''x'')) =
       ''\<newline>### PLAN Phase:\<newline>'' @ replicate 1000 (CHR ''x'') @ ''\<newline>''"
    using C4_truncation_law [of node "''plan''" "replicate 1000 (CHR ''x'')"] by (simp add: u)
  have 2: "contextBlock node ''plan'' (replicate 1001 (CHR ''x'')) =
       ''\<newline>### PLAN Phase:\<newline>'' @ replicate 1000 (CHR ''x'') @ ''...'' @ ''\<newline>''"
    using C4_truncation_law [of node "''plan''" "replicate 1001 (CHR ''x'')"] by (simp add: u)
  show ?thesis
    using 1 2 by simp
qed

section \<open>The payloads of a run\<close>

text \<open>
  Claim C5. The payload of a phase is the task text, then, when there are earlier results,
  the heading of the context section and one labelled block for each of them, in the order
  of the entries, holding the first 1000 units of the result (the whole result when it is not
  longer) and the marker when it was cut, then the heading of the instructions and the
  instruction text, which comes last and whole. In a run the first phase is given no earlier
  results, so its payload has no context section, and each later phase is given the results
  of the phases completed before it, in the order they completed, and of no other phase.
\<close>

theorem C5_payload_assembly:
  "fullPrompt R taskDescription previousResults instructions =
     taskDescription
     @ (case previousResults of
          None \<Rightarrow> []
        | Some entries \<Rightarrow>
            if entries = [] then []
            else ''\<newline>\<newline>## Context from Previous Phases:\<newline>''
                 @ concat (map (\<lambda>(prevPhase, r).
                     ''\<newline>### '' @ toUpperCase R prevPhase @ '' Phase:\<newline>''
                     @ take (min (length r) 1000) r @ (if 1000 < length r then ''...'' else [])
                     @ ''\<newline>'')
                   entries))
     @ ''\<newline>\<newline>## Phase Instructions:\<newline>'' @ instructions
   \<and> (let block = (\<lambda>phaseName.
              ''\<newline>### '' @ toUpperCase R phaseName @ '' Phase:\<newline>''
              @ take (min (length (placeholder R phaseName)) 1000) (placeholder R phaseName)
              @ (if 1000 < length (placeholder R phaseName) then ''...'' else [])
              @ ''\<newline>'')
        in prompts (snd (orchestrate R s task)) =
           prompts s @
           [(''research'',
             researchTask task
             @ ''\<newline>\<newline>## Phase Instructions:\<newline>'' @ phaseInstructions R s ''research''),
            (''plan'',
             planTask task
             @ ''\<newline>\<newline>## Context from Previous Phases:\<newline>'' @ block ''research''
             @ ''\<newline>\<newline>## Phase Instructions:\<newline>''
             @ phaseInstructions R (afterResearch R s task) ''plan''),
            (''implement'',
             implementTask task
             @ ''\<newline>\<newline>## Context from Previous Phases:\<newline>'' @ block ''research'' @ block ''plan''
             @ ''\<newline>\<newline>## Phase Instructions:\<newline>''
             @ phaseInstructions R (afterPlan R s task) ''implement''),
            (''correct'',
             correctTask task
             @ ''\<newline>\<newline>## Context from Previous Phases:\<newline>''
             @ block ''research'' @ block ''plan'' @ block ''implement''
             @ ''\<newline>\<newline>## Phase Instructions:\<newline>''
             @ phaseInstructions R (afterImplement R s task) ''correct'')])"
proof
  show "fullPrompt R taskDescription previousResults instructions =
     taskDescription
     @ (case previousResults of
          None \<Rightarrow> []
        | Some entries \<Rightarrow>
            if entries = [] then []
            else ''\<newline>\<newline>## Context from Previous Phases:\<newline>''
                 @ concat (map (\<lambda>(prevPhase, r).
                     ''\<newline>### '' @ toUpperCase R prevPhase @ '' Phase:\<newline>''
                     @ take (min (length r) 1000) r @ (if 1000 < length r then ''...'' else [])
                     @ ''\<newline>'')
                   entries))
     @ ''\<newline>\<newline>## Phase Instructions:\<newline>'' @ instructions"
  proof (cases previousResults)
    case None
    then show ?thesis by (simp add: fullPrompt_None)
  next
    case (Some entries)
    then show ?thesis by (simp add: fullPrompt_Some contextBlock_abs)
  qed
next
  show "let block = (\<lambda>phaseName.
              ''\<newline>### '' @ toUpperCase R phaseName @ '' Phase:\<newline>''
              @ take (min (length (placeholder R phaseName)) 1000) (placeholder R phaseName)
              @ (if 1000 < length (placeholder R phaseName) then ''...'' else [])
              @ ''\<newline>'')
        in prompts (snd (orchestrate R s task)) =
           prompts s @
           [(''research'',
             researchTask task
             @ ''\<newline>\<newline>## Phase Instructions:\<newline>'' @ phaseInstructions R s ''research''),
            (''plan'',
             planTask task
             @ ''\<newline>\<newline>## Context from Previous Phases:\<newline>'' @ block ''research''
             @ ''\<newline>\<newline>## Phase Instructions:\<newline>''
             @ phaseInstructions R (afterResearch R s task) ''plan''),
            (''implement'',
             implementTask task
             @ ''\<newline>\<newline>## Context from Previous Phases:\<newline>'' @ block ''research'' @ block ''plan''
             @ ''\<newline>\<newline>## Phase Instructions:\<newline>''
             @ phaseInstructions R (afterPlan R s task) ''implement''),
            (''correct'',
             correctTask task
             @ ''\<newline>\<newline>## Context from Previous Phases:\<newline>''
             @ block ''research'' @ block ''plan'' @ block ''implement''
             @ ''\<newline>\<newline>## Phase Instructions:\<newline>''
             @ phaseInstructions R (afterImplement R s task) ''correct'')]"
    unfolding Let_def
    by (simp add: orchestrate_prompts afterCorrect_prompts fullPrompt_None fullPrompt_Some
        contextBlock_eq)
qed

section \<open>The result of a phase depends on its name only\<close>

text \<open>
  Claim C10. Whenever \<open>runPhase\<close> returns, the text it returns is the placeholder of the
  phase name, whatever the state, the task and the earlier results are: two calls for one
  phase name that both return, return the same text. The record the call has saved carries
  this text as its result. The four phases of a run return their placeholders, so the
  summary that \<open>orchestrate\<close> returns is the same for every task.
\<close>

theorem C10_result_fixed_by_phase:
  "(fst (runPhase R s phaseName task prev) = Inr text \<longrightarrow> text = placeholder R phaseName)
   \<and> (fst (runPhase R s phaseName task prev) = Inr text
        \<and> fst (runPhase R s' phaseName task' prev') = Inr text' \<longrightarrow> text = text')
   \<and> (fst (runPhase R s phaseName task prev) = Inr text \<longrightarrow>
        map (result \<circ> snd) (saved (snd (runPhase R s phaseName task prev))) =
          map (result \<circ> snd) (saved s) @ [text])
   \<and> fst (orchestrate R s task) =
       Inr [(''research'', placeholder R ''research''), (''plan'', placeholder R ''plan''),
            (''implement'', placeholder R ''implement''), (''correct'', placeholder R ''correct'')]
   \<and> fst (orchestrate R s task) = fst (orchestrate R s' task')"
proof -
  have 1: "fst (runPhase R s phaseName task prev) = Inr text \<longrightarrow> text = placeholder R phaseName"
    using runPhase_returned_text by blast
  have 2: "fst (runPhase R s phaseName task prev) = Inr text
        \<and> fst (runPhase R s' phaseName task' prev') = Inr text' \<longrightarrow> text = text'"
    using runPhase_returned_text by blast
  have 3: "fst (runPhase R s phaseName task prev) = Inr text \<longrightarrow>
        map (result \<circ> snd) (saved (snd (runPhase R s phaseName task prev))) =
          map (result \<circ> snd) (saved s) @ [text]"
    using runPhase_returned_text [of R s phaseName task prev "text"]
    by (auto simp: runPhase_saved phaseRecord_def)
  have 4: "fst (orchestrate R s task) =
       Inr [(''research'', placeholder R ''research''), (''plan'', placeholder R ''plan''),
            (''implement'', placeholder R ''implement''), (''correct'', placeholder R ''correct'')]"
    by (simp add: orchestrate_eq summary_def)
  have 5: "fst (orchestrate R s task) = fst (orchestrate R s' task')"
    by (simp add: orchestrate_eq)
  show ?thesis
    using 1 2 3 4 5 by (intro conjI) assumption+
qed

text \<open>
  The plan phase returns in the worlds \<open>ticking\<close> and \<open>quick\<close>, for two tasks and with
  and without earlier results, and returns the same text.
\<close>

theorem C10_result_fixed_by_phase_witness:
  "fst (runPhase node ticking ''plan'' (planTask ''build X'') None) = Inr (placeholder node ''plan'')
   \<and> fst (runPhase node quick ''plan'' (planTask ''ship Y'') (Some [(''research'', ''notes'')])) =
       Inr (placeholder node ''plan'')
   \<and> map (result \<circ> snd) (saved (snd (runPhase node ticking ''plan'' (planTask ''build X'') None))) =
       [placeholder node ''plan'']"
proof -
  have a: "fst (runPhase node ticking ''plan'' (planTask ''build X'') None) =
      Inr (placeholder node ''plan'')"
    by (simp add: runPhase_plan)
  have b: "fst (runPhase node quick ''plan'' (planTask ''ship Y'') (Some [(''research'', ''notes'')])) =
      Inr (placeholder node ''plan'')"
    by (simp add: runPhase_plan)
  show ?thesis
    using a b
      C10_result_fixed_by_phase [of node ticking "''plan''" "planTask ''build X''" None
        "placeholder node ''plan''" quick "planTask ''ship Y''"
        "Some [(''research'', ''notes'')]" "placeholder node ''plan''"]
    by (simp add: ticking_sel)
qed


section \<open>A missing instruction file\<close>

lemma missing_instruction:
  assumes "files s (path_join R (instructionsDir s) (phaseName @ ''-phase.instructions.md'')) = None"
  shows "loadInstructionFile R s (phaseName @ ''-phase.instructions.md'') =
     (''Execute the ''
        @ replace_first ''-phase.instructions.md'' [] (phaseName @ ''-phase.instructions.md'')
        @ '' phase of the workflow.'',
      s\<lparr>warnings := warnings s @
         [''Instruction file not found: ''
          @ path_join R (instructionsDir s) (phaseName @ ''-phase.instructions.md'')
          @ '', using default instructions'']\<rparr>)"
  using assms by (simp add: loadInstructionFile_def)

lemma saves_files: "saves R (s\<lparr>files := fs\<rparr>) phaseName = saves R s phaseName"
  by (simp add: saves_def phaseFile_def)

lemma phaseFile_files [simp]:
  "phaseFile R (s\<lparr>files := fs\<rparr>) phaseName now = phaseFile R s phaseName now"
  by (simp add: phaseFile_def)

lemma phaseRecord_files [simp]:
  "phaseRecord R (s\<lparr>files := fs\<rparr>) phaseName = phaseRecord R s phaseName"
  by (simp add: phaseRecord_def)

lemma runPhase_outcome_files:
  "fst (runPhase R (s\<lparr>files := fs\<rparr>) phaseName task prev) = fst (runPhase R s phaseName task prev)"
  by (simp add: runPhase_outcome saves_files split: resolved.split)

lemma runPhase_saved_files:
  "saved (snd (runPhase R (s\<lparr>files := fs\<rparr>) phaseName task prev)) =
   saved (snd (runPhase R s phaseName task prev))"
  by (simp add: runPhase_saved runPhase_outcome_files split: sum.split)

text \<open>
  Claim C7. When the instruction file of a phase is absent, \<open>loadInstructionFile\<close>
  returns the synthesized instruction \<open>Execute the <phase> phase of the workflow.\<close> and
  prints a warning that names the missing file. The absence changes neither the outcome of
  the phase nor the records it saves: both are as they are when the file is there, whatever
  it holds. When the phase returns, its record has been created and persisted; and it does
  return when its name resolves to a configuration and is a plain name.
\<close>

theorem C7_missing_instruction:
  assumes "files s (path_join R (instructionsDir s) (phaseName @ ''-phase.instructions.md'')) = None"
  shows "loadInstructionFile R s (phaseName @ ''-phase.instructions.md'') =
           (''Execute the ''
              @ replace_first ''-phase.instructions.md'' [] (phaseName @ ''-phase.instructions.md'')
              @ '' phase of the workflow.'',
            s\<lparr>warnings := warnings s @
               [''Instruction file not found: ''
                @ path_join R (instructionsDir s) (phaseName @ ''-phase.instructions.md'')
                @ '', using default instructions'']\<rparr>)
         \<and> fst (runPhase R s phaseName task prev) =
             fst (runPhase R
                   (s\<lparr>files := (files s)
                        (path_join R (instructionsDir s) (phaseName @ ''-phase.instructions.md'')
                         \<mapsto> instructions)\<rparr>)
                   phaseName task prev)
         \<and> saved (snd (runPhase R s phaseName task prev)) =
             saved (snd (runPhase R
                   (s\<lparr>files := (files s)
                        (path_join R (instructionsDir s) (phaseName @ ''-phase.instructions.md'')
                         \<mapsto> instructions)\<rparr>)
                   phaseName task prev))
         \<and> (fst (runPhase R s phaseName task prev) = Inr x \<longrightarrow>
              saved (snd (runPhase R s phaseName task prev)) =
                saved s @
                [(phaseFile R s phaseName (clock s (Suc (reads s))),
                  \<lparr>phase = phaseName, timestamp = toISOString R (clock s (reads s)),
                   result = placeholder R phaseName, error = None\<rparr>)]
              \<and> files (snd (runPhase R s phaseName task prev))
                    (phaseFile R s phaseName (clock s (Suc (reads s)))) =
                  Some (stringify_phase R
                    \<lparr>phase = phaseName, timestamp = toISOString R (clock s (reads s)),
                     result = placeholder R phaseName, error = None\<rparr>))
         \<and> (getAgentConfig R phaseName = Config c \<and> plain phaseName \<longrightarrow>
              fst (runPhase R s phaseName task prev) = Inr (placeholder R phaseName))"
proof -
  have 4: "fst (runPhase R s phaseName task prev) = Inr x \<longrightarrow>
              saved (snd (runPhase R s phaseName task prev)) =
                saved s @
                [(phaseFile R s phaseName (clock s (Suc (reads s))),
                  \<lparr>phase = phaseName, timestamp = toISOString R (clock s (reads s)),
                   result = placeholder R phaseName, error = None\<rparr>)]
              \<and> files (snd (runPhase R s phaseName task prev))
                    (phaseFile R s phaseName (clock s (Suc (reads s)))) =
                  Some (stringify_phase R
                    \<lparr>phase = phaseName, timestamp = toISOString R (clock s (reads s)),
                     result = placeholder R phaseName, error = None\<rparr>)"
    by (simp add: runPhase_saved runPhase_files phaseRecord_def)
  have 5: "getAgentConfig R phaseName = Config c \<and> plain phaseName \<longrightarrow>
              fst (runPhase R s phaseName task prev) = Inr (placeholder R phaseName)"
    using runPhase_returns by blast
  show ?thesis
    using missing_instruction [OF assms] 4 5
    by (simp add: runPhase_outcome_files runPhase_saved_files)
qed

lemma replace_first_research:
  "replace_first ''-phase.instructions.md'' [] ''research-phase.instructions.md'' = ''research''"
  by simp

text \<open>
  The world \<open>ticking\<close> has no instruction file for the research phase: the phase warns,
  returns and persists its record.
\<close>

theorem C7_missing_instruction_witness:
  "files ticking (path_join node (instructionsDir ticking) (''research'' @ ''-phase.instructions.md'')) = None
   \<and> getAgentConfig node ''research'' = Config
       \<lparr>description = ''Research specialist for thorough analysis and requirement gathering'',
        tools = [''Read'', ''Grep'', ''Glob'', ''WebSearch'', ''WebFetch'', ''Task''],
        model = Some ''opus''\<rparr>
   \<and> plain ''research''
   \<and> loadInstructionFile node ticking ''research-phase.instructions.md'' =
       (''Execute the research phase of the workflow.'',
        ticking\<lparr>warnings :=
          [''Instruction file not found: /repo/instructions/research-phase.instructions.md, using default instructions'']\<rparr>)
   \<and> fst (runPhase node ticking ''research'' (researchTask ''build X'') None) =
       Inr (placeholder node ''research'')
   \<and> saved (snd (runPhase node ticking ''research'' (researchTask ''build X'') None)) =
       [(''/repo/outputs/research_2026-01-08T12-30-00.250Z.json'',
         \<lparr>phase = ''research'', timestamp = ''2026-01-08T12:30:00.000Z'',
          result = placeholder node ''research'', error = None\<rparr>)]
   \<and> files (snd (runPhase node ticking ''research'' (researchTask ''build X'') None))
         ''/repo/outputs/research_2026-01-08T12-30-00.250Z.json'' =
       Some (stringify_phase node
         \<lparr>phase = ''research'', timestamp = ''2026-01-08T12:30:00.000Z'',
          result = placeholder node ''research'', error = None\<rparr>)"
proof -
  have h: "files ticking (path_join node (instructionsDir ticking)
             (''research'' @ ''-phase.instructions.md'')) = None"
    by (simp add: ticking_sel)
  note inst = C7_missing_instruction [OF h, where task = "researchTask ''build X''"
      and prev = None and instructions = "''read the code''"
      and x = "placeholder node ''research''"
      and c = "\<lparr>description = ''Research specialist for thorough analysis and requirement gathering'',
        tools = [''Read'', ''Grep'', ''Glob'', ''WebSearch'', ''WebFetch'', ''Task''],
        model = Some ''opus''\<rparr>"]
  have g: "getAgentConfig node ''research'' = Config
       \<lparr>description = ''Research specialist for thorough analysis and requirement gathering'',
        tools = [''Read'', ''Grep'', ''Glob'', ''WebSearch'', ''WebFetch'', ''Task''],
        model = Some ''opus''\<rparr>"
    by (rule getAgentConfig_own)
  have q: "plain ''research''"
    by (simp add: plain_def)
  have r: "fst (runPhase node ticking ''research'' (researchTask ''build X'') None) =
       Inr (placeholder node ''research'')"
    using inst [THEN conjunct2, THEN conjunct2, THEN conjunct2, THEN conjunct2] g q by blast
  have p: "phaseFile node ticking ''research'' (clock ticking (Suc (reads ticking))) =
       ''/repo/outputs/research_2026-01-08T12-30-00.250Z.json''"
    by (simp add: phaseFile_def phaseFileName_def ticking_sel node_sel iso_ticking
        replace_colons_def join_outputs)
  have j: "path_join node (instructionsDir ticking) (''research'' @ ''-phase.instructions.md'') =
       ''/repo/instructions/research-phase.instructions.md''"
    by (simp add: ticking_sel node_sel join_instructions)
  have t: "toISOString node (clock ticking (reads ticking)) = ''2026-01-08T12:30:00.000Z''"
    by (simp add: ticking_sel node_sel iso_quick)
  have l: "loadInstructionFile node ticking ''research-phase.instructions.md'' =
       (''Execute the research phase of the workflow.'',
        ticking\<lparr>warnings :=
          [''Instruction file not found: /repo/instructions/research-phase.instructions.md, using default instructions'']\<rparr>)"
    using inst [THEN conjunct1] unfolding j by (simp add: ticking_sel)
  have sv: "saved (snd (runPhase node ticking ''research'' (researchTask ''build X'') None)) =
       [(''/repo/outputs/research_2026-01-08T12-30-00.250Z.json'',
         \<lparr>phase = ''research'', timestamp = ''2026-01-08T12:30:00.000Z'',
          result = placeholder node ''research'', error = None\<rparr>)]"
    using inst [THEN conjunct2, THEN conjunct2, THEN conjunct2, THEN conjunct1] r
    unfolding p t by (simp add: ticking_sel)
  have fl: "files (snd (runPhase node ticking ''research'' (researchTask ''build X'') None))
         ''/repo/outputs/research_2026-01-08T12-30-00.250Z.json'' =
       Some (stringify_phase node
         \<lparr>phase = ''research'', timestamp = ''2026-01-08T12:30:00.000Z'',
          result = placeholder node ''research'', error = None\<rparr>)"
    using inst [THEN conjunct2, THEN conjunct2, THEN conjunct2, THEN conjunct1] r
    unfolding p t by simp
  show ?thesis
    using h g q l r sv fl by (intro conjI) assumption+
qed


section \<open>Results and failures\<close>









section \<open>A failing phase\<close>

lemma afterPlan_saved:
  "saved (afterPlan R s task) =
     saved s @
     [(phaseFile R s ''research'' (clock s (reads s + 1)), stamped R s ''research'' 0),
      (phaseFile R s ''plan'' (clock s (reads s + 3)), stamped R s ''plan'' 2)]"
proof -
  from config_research obtain c1 where c1: "getAgentConfig R ''research'' = Config c1" ..
  from config_plan obtain c2 where c2: "getAgentConfig R ''plan'' = Config c2" ..
  have 1: "saved (afterResearch R s task) =
      saved s @ [(phaseFile R s ''research'' (clock s (reads s + 1)), stamped R s ''research'' 0)]"
    by (simp add: afterResearch_def phaseState_saved [OF c1 saves_own(1)] phaseRecord_def
        stamped_def phaseFile_def)
  have 2: "saved (afterPlan R s task) =
      saved (afterResearch R s task) @
      [(phaseFile R s ''plan'' (clock s (reads s + 3)), stamped R s ''plan'' 2)]"
    unfolding afterPlan_def phaseState_saved [OF c2 saves_own(2)]
    by (simp add: phaseRecord_def stamped_def afterResearch_frame phaseFile_def eval_nat_numeral)
  show ?thesis by (simp add: 1 2)
qed

lemma afterPlan_prompts:
  "map fst (prompts (afterPlan R s task)) = map fst (prompts s) @ [''research'', ''plan'']"
proof -
  from config_research obtain c1 where c1: "getAgentConfig R ''research'' = Config c1" ..
  from config_plan obtain c2 where c2: "getAgentConfig R ''plan'' = Config c2" ..
  show ?thesis
    unfolding afterPlan_def phaseState_prompts [OF c2 saves_own(2)]
    unfolding afterResearch_def phaseState_prompts [OF c1 saves_own(1)]
    by simp
qed

lemma afterPlan_files:
  "files (afterPlan R s task) =
     (files s)
       (phaseFile R s ''research'' (clock s (reads s + 1)) \<mapsto>
          stringify_phase R (stamped R s ''research'' 0),
        phaseFile R s ''plan'' (clock s (reads s + 3)) \<mapsto>
          stringify_phase R (stamped R s ''plan'' 2))"
proof -
  from config_research obtain c1 where c1: "getAgentConfig R ''research'' = Config c1" ..
  from config_plan obtain c2 where c2: "getAgentConfig R ''plan'' = Config c2" ..
  have 1: "files (afterResearch R s task) =
      (files s)(phaseFile R s ''research'' (clock s (reads s + 1)) \<mapsto>
          stringify_phase R (stamped R s ''research'' 0))"
    by (simp add: afterResearch_def phaseState_files [OF c1 saves_own(1)] phaseRecord_def
        stamped_def phaseFile_def)
  have 2: "files (afterPlan R s task) =
      (files (afterResearch R s task))(phaseFile R s ''plan'' (clock s (reads s + 3)) \<mapsto>
          stringify_phase R (stamped R s ''plan'' 2))"
    unfolding afterPlan_def phaseState_files [OF c2 saves_own(2)]
    by (simp add: phaseRecord_def stamped_def afterResearch_frame phaseFile_def eval_nat_numeral)
  show ?thesis by (simp add: 1 2)
qed

lemma orchestrate_with_research:
  assumes "run s ''research'' (researchTask task) None = (Inl e, s1)"
  shows "orchestrate_with run R s task = (Inl e, s1)"
  using assms by (simp add: orchestrate_with_def)

lemma orchestrate_with_plan:
  assumes "run s ''research'' (researchTask task) None = (Inr r1, s1)"
    and "run s1 ''plan'' (planTask task) (Some [(''research'', r1)]) = (Inl e, s2)"
  shows "orchestrate_with run R s task = (Inl e, s2)"
  using assms by (simp add: orchestrate_with_def)

lemma orchestrate_with_implement:
  assumes "run s ''research'' (researchTask task) None = (Inr r1, s1)"
    and "run s1 ''plan'' (planTask task) (Some [(''research'', r1)]) = (Inr r2, s2)"
    and "run s2 ''implement'' (implementTask task) (Some [(''research'', r1), (''plan'', r2)]) =
           (Inl e, s3)"
  shows "orchestrate_with run R s task = (Inl e, s3)"
  using assms by (simp add: orchestrate_with_def)

lemma orchestrate_with_correct:
  assumes "run s ''research'' (researchTask task) None = (Inr r1, s1)"
    and "run s1 ''plan'' (planTask task) (Some [(''research'', r1)]) = (Inr r2, s2)"
    and "run s2 ''implement'' (implementTask task) (Some [(''research'', r1), (''plan'', r2)]) =
           (Inr r3, s3)"
    and "run s3 ''correct'' (correctTask task)
           (Some [(''research'', r1), (''plan'', r2), (''implement'', r3)]) = (Inl e, s4)"
  shows "orchestrate_with run R s task = (Inl e, s4)"
  using assms by (simp add: orchestrate_with_def)

lemma fails_at_implement:
  "orchestrate_with (fails_at ''implement'') node s task =
     (Inl (Thrown ''worker timed out''), afterPlan node s task)"
  by (rule orchestrate_with_implement [where
        ?r1.0 = "placeholder node ''research''" and ?s1.0 = "afterResearch node s task"
        and ?r2.0 = "placeholder node ''plan''"])
    (simp_all add: fails_at_def runPhase_research runPhase_plan afterResearch_def afterPlan_def)

text \<open>
  Against claim C3 as stated. On an object whose \<open>runPhase\<close> fails for the implement
  phase, \<open>orchestrate\<close> fails with the error of that phase. Research and plan were given
  their payloads and have saved their records; the correct phase is given no payload and
  saves no record, and no summary is written: the records of research and plan are the only
  files.
\<close>

theorem C3_failure_aborts_pipeline:
  "fst (orchestrate_with (fails_at ''implement'') node ticking ''build X'') =
     Inl (Thrown ''worker timed out'')
   \<and> map fst (prompts (snd (orchestrate_with (fails_at ''implement'') node ticking ''build X''))) =
       [''research'', ''plan'']
   \<and> map (phase \<circ> snd)
       (saved (snd (orchestrate_with (fails_at ''implement'') node ticking ''build X''))) =
       [''research'', ''plan'']
   \<and> dom (files (snd (orchestrate_with (fails_at ''implement'') node ticking ''build X''))) =
       {''/repo/outputs/research_2026-01-08T12-30-00.250Z.json'',
        ''/repo/outputs/plan_2026-01-08T12-30-00.750Z.json''}"
proof -
  have 1: "map fst (prompts (afterPlan node ticking ''build X'')) = [''research'', ''plan'']"
    by (simp add: afterPlan_prompts ticking_sel)
  have 2: "map (phase \<circ> snd) (saved (afterPlan node ticking ''build X'')) = [''research'', ''plan'']"
    by (simp add: afterPlan_saved ticking_sel stamped_def)
  have 3: "dom (files (afterPlan node ticking ''build X'')) =
       {''/repo/outputs/research_2026-01-08T12-30-00.250Z.json'',
        ''/repo/outputs/plan_2026-01-08T12-30-00.750Z.json''}"
    by (simp add: afterPlan_files ticking_sel node_sel iso_ticking phaseFile_def
        phaseFileName_def replace_colons_def join_outputs insert_commute)
  show ?thesis
    unfolding fails_at_implement using 1 2 3 by simp
qed

text \<open>
  Claim C3, amended. \<open>orchestrate\<close> takes the task and nothing else, and awaits each of
  its four calls of \<open>runPhase\<close> with no handler around it. When one of the calls fails,
  \<open>orchestrate\<close> fails with the same error, in the state the failing call has left: no
  later phase is executed and no summary is written, whatever the error is. On the class's
  own \<open>runPhase\<close> the four phases run in the order research, plan, implement, correct,
  none of their records carries an error text, and the payload of the correct phase holds
  the blocks of research, plan and implement, the last with the result of implement, which
  is the placeholder text.
\<close>

theorem C3_failure_aborts_run:
  "(run s ''research'' (researchTask task) None = (Inl e, s1) \<longrightarrow>
      orchestrate_with run R s task = (Inl e, s1))
   \<and> (run s ''research'' (researchTask task) None = (Inr r1, s1)
       \<and> run s1 ''plan'' (planTask task) (Some [(''research'', r1)]) = (Inl e, s2) \<longrightarrow>
      orchestrate_with run R s task = (Inl e, s2))
   \<and> (run s ''research'' (researchTask task) None = (Inr r1, s1)
       \<and> run s1 ''plan'' (planTask task) (Some [(''research'', r1)]) = (Inr r2, s2)
       \<and> run s2 ''implement'' (implementTask task) (Some [(''research'', r1), (''plan'', r2)]) =
           (Inl e, s3) \<longrightarrow>
      orchestrate_with run R s task = (Inl e, s3))
   \<and> (run s ''research'' (researchTask task) None = (Inr r1, s1)
       \<and> run s1 ''plan'' (planTask task) (Some [(''research'', r1)]) = (Inr r2, s2)
       \<and> run s2 ''implement'' (implementTask task) (Some [(''research'', r1), (''plan'', r2)]) =
           (Inr r3, s3)
       \<and> run s3 ''correct'' (correctTask task)
           (Some [(''research'', r1), (''plan'', r2), (''implement'', r3)]) = (Inl e, s4) \<longrightarrow>
      orchestrate_with run R s task = (Inl e, s4))
   \<and> orchestrate R s task = orchestrate_with (runPhase R) R s task
   \<and> map fst (prompts (snd (orchestrate R s task))) =
       map fst (prompts s) @ [''research'', ''plan'', ''implement'', ''correct'']
   \<and> map (error \<circ> snd) (saved (snd (orchestrate R s task))) =
       map (error \<circ> snd) (saved s) @ [None, None, None, None]
   \<and> snd (last (prompts (snd (orchestrate R s task)))) =
       correctTask task
       @ ''\<newline>\<newline>## Context from Previous Phases:\<newline>''
       @ ''\<newline>### '' @ toUpperCase R ''research'' @ '' Phase:\<newline>''
       @ take (min (length (placeholder R ''research'')) 1000) (placeholder R ''research'')
       @ (if 1000 < length (placeholder R ''research'') then ''...'' else []) @ ''\<newline>''
       @ ''\<newline>### '' @ toUpperCase R ''plan'' @ '' Phase:\<newline>''
       @ take (min (length (placeholder R ''plan'')) 1000) (placeholder R ''plan'')
       @ (if 1000 < length (placeholder R ''plan'') then ''...'' else []) @ ''\<newline>''
       @ ''\<newline>### '' @ toUpperCase R ''implement'' @ '' Phase:\<newline>''
       @ take (min (length (placeholder R ''implement'')) 1000) (placeholder R ''implement'')
       @ (if 1000 < length (placeholder R ''implement'') then ''...'' else []) @ ''\<newline>''
       @ ''\<newline>\<newline>## Phase Instructions:\<newline>''
       @ phaseInstructions R (afterImplement R s task) ''correct''"
proof -
  have 1: "run s ''research'' (researchTask task) None = (Inl e, s1) \<longrightarrow>
      orchestrate_with run R s task = (Inl e, s1)"
    by (simp add: orchestrate_with_research)
  have 2: "run s ''research'' (researchTask task) None = (Inr r1, s1)
       \<and> run s1 ''plan'' (planTask task) (Some [(''research'', r1)]) = (Inl e, s2) \<longrightarrow>
      orchestrate_with run R s task = (Inl e, s2)"
    by (auto intro: orchestrate_with_plan)
  have 3: "run s ''research'' (researchTask task) None = (Inr r1, s1)
       \<and> run s1 ''plan'' (planTask task) (Some [(''research'', r1)]) = (Inr r2, s2)
       \<and> run s2 ''implement'' (implementTask task) (Some [(''research'', r1), (''plan'', r2)]) =
           (Inl e, s3) \<longrightarrow>
      orchestrate_with run R s task = (Inl e, s3)"
    by (auto intro: orchestrate_with_implement)
  have 4: "run s ''research'' (researchTask task) None = (Inr r1, s1)
       \<and> run s1 ''plan'' (planTask task) (Some [(''research'', r1)]) = (Inr r2, s2)
       \<and> run s2 ''implement'' (implementTask task) (Some [(''research'', r1), (''plan'', r2)]) =
           (Inr r3, s3)
       \<and> run s3 ''correct'' (correctTask task)
           (Some [(''research'', r1), (''plan'', r2), (''implement'', r3)]) = (Inl e, s4) \<longrightarrow>
      orchestrate_with run R s task = (Inl e, s4)"
    by (auto intro: orchestrate_with_correct)
  have 5: "orchestrate R s task = orchestrate_with (runPhase R) R s task"
    by (rule orchestrate_own)
  have 6: "map fst (prompts (snd (orchestrate R s task))) =
       map fst (prompts s) @ [''research'', ''plan'', ''implement'', ''correct'']"
    by (simp add: orchestrate_prompts afterCorrect_prompts)
  have 7: "map (error \<circ> snd) (saved (snd (orchestrate R s task))) =
       map (error \<circ> snd) (saved s) @ [None, None, None, None]"
    by (simp add: orchestrate_saved afterCorrect_saved stamped_def)
  have 8: "snd (last (prompts (snd (orchestrate R s task)))) =
       correctTask task
       @ ''\<newline>\<newline>## Context from Previous Phases:\<newline>''
       @ ''\<newline>### '' @ toUpperCase R ''research'' @ '' Phase:\<newline>''
       @ take (min (length (placeholder R ''research'')) 1000) (placeholder R ''research'')
       @ (if 1000 < length (placeholder R ''research'') then ''...'' else []) @ ''\<newline>''
       @ ''\<newline>### '' @ toUpperCase R ''plan'' @ '' Phase:\<newline>''
       @ take (min (length (placeholder R ''plan'')) 1000) (placeholder R ''plan'')
       @ (if 1000 < length (placeholder R ''plan'') then ''...'' else []) @ ''\<newline>''
       @ ''\<newline>### '' @ toUpperCase R ''implement'' @ '' Phase:\<newline>''
       @ take (min (length (placeholder R ''implement'')) 1000) (placeholder R ''implement'')
       @ (if 1000 < length (placeholder R ''implement'') then ''...'' else []) @ ''\<newline>''
       @ ''\<newline>\<newline>## Phase Instructions:\<newline>''
       @ phaseInstructions R (afterImplement R s task) ''correct''"
    by (simp add: orchestrate_prompts afterCorrect_prompts fullPrompt_Some contextBlock_eq)
  show ?thesis
    using 1 2 3 4 5 6 7 8 by (intro conjI) assumption+
qed

text \<open>
  Objects whose \<open>runPhase\<close> fails for the first, the second, the third and the fourth
  phase: each run ends with the error, in the state in which the failing phase was called.
\<close>

theorem C3_failure_aborts_run_witness:
  "orchestrate_with (fails_at ''research'') node ticking ''build X'' =
     (Inl (Thrown ''worker timed out''), ticking)
   \<and> orchestrate_with (fails_at ''plan'') node ticking ''build X'' =
       (Inl (Thrown ''worker timed out''), afterResearch node ticking ''build X'')
   \<and> orchestrate_with (fails_at ''implement'') node ticking ''build X'' =
       (Inl (Thrown ''worker timed out''), afterPlan node ticking ''build X'')
   \<and> orchestrate_with (fails_at ''correct'') node ticking ''build X'' =
       (Inl (Thrown ''worker timed out''), afterImplement node ticking ''build X'')"
proof -
  let ?e = "Thrown ''worker timed out''"
  let ?r1 = "placeholder node ''research''"
  let ?r2 = "placeholder node ''plan''"
  let ?r3 = "placeholder node ''implement''"
  let ?s1 = "afterResearch node ticking ''build X''"
  let ?s2 = "afterPlan node ticking ''build X''"
  let ?s3 = "afterImplement node ticking ''build X''"
  note inst = C3_failure_aborts_run [where R = node and s = ticking and task = "''build X''"
      and e = ?e and ?r1.0 = ?r1 and ?r2.0 = ?r2 and ?r3.0 = ?r3]
  have 1: "orchestrate_with (fails_at ''research'') node ticking ''build X'' = (Inl ?e, ticking)"
    using inst [where run = "fails_at ''research''" and ?s1.0 = ticking, THEN conjunct1]
    by (simp add: fails_at_def)
  have 2: "orchestrate_with (fails_at ''plan'') node ticking ''build X'' = (Inl ?e, ?s1)"
    using inst [where run = "fails_at ''plan''" and ?s1.0 = ?s1 and ?s2.0 = ?s1,
        THEN conjunct2, THEN conjunct1]
    by (simp add: fails_at_def runPhase_research afterResearch_def)
  have 3: "orchestrate_with (fails_at ''implement'') node ticking ''build X'' = (Inl ?e, ?s2)"
    using inst [where run = "fails_at ''implement''" and ?s1.0 = ?s1 and ?s2.0 = ?s2
        and ?s3.0 = ?s2, THEN conjunct2, THEN conjunct2, THEN conjunct1]
    by (simp add: fails_at_def runPhase_research runPhase_plan afterResearch_def afterPlan_def)
  have 4: "orchestrate_with (fails_at ''correct'') node ticking ''build X'' = (Inl ?e, ?s3)"
    using inst [where run = "fails_at ''correct''" and ?s1.0 = ?s1 and ?s2.0 = ?s2
        and ?s3.0 = ?s3 and ?s4.0 = ?s3, THEN conjunct2, THEN conjunct2, THEN conjunct2,
        THEN conjunct1]
    by (simp add: fails_at_def runPhase_research runPhase_plan runPhase_implement
        afterResearch_def afterPlan_def afterImplement_def)
  show ?thesis
    using 1 2 3 4 by (intro conjI) assumption+
qed

end
